theory Spec2Isabelle
  imports Main "HOL-Library.Sublist" "HOL-Library.Option_ord" "HOL-Library.Product_Lexorder"
    "HOL-Library.Char_ord" "HOL-Library.List_Lexorder"
begin

section \<open>JavaScript strings\<close>

text \<open>
  A JavaScript string is a sequence of UTF-16 code units. The model covers the code units
  below 256 (ASCII and Latin-1), one \<^typ>\<open>char\<close> each, so \<^const>\<open>length\<close> is the
  \<^verbatim>\<open>.length\<close> of the source. Static text of the source outside that range (pictographs in
  the page templates) is given by its UTF-8 bytes, as it is written to disk.
\<close>

text \<open>\<^verbatim>\<open>\s\<close> of a regular expression and the characters removed by \<^verbatim>\<open>trim()\<close>:
  TAB, LF, VT, FF, CR, space and the no-break space.\<close>

definition isWhiteSpace :: "char \<Rightarrow> bool" where
  "isWhiteSpace c \<longleftrightarrow>
     c \<in> set [CHR 0x09, CHR 0x0A, CHR 0x0B, CHR 0x0C, CHR 0x0D, CHR 0x20, CHR 0xA0]"

text \<open>The characters that \<^verbatim>\<open>.\<close> does not match (without the \<^verbatim>\<open>s\<close> flag).\<close>

definition isLineTerminator :: "char \<Rightarrow> bool" where
  "isLineTerminator c \<longleftrightarrow> c = CHR 0x0A \<or> c = CHR 0x0D"

text \<open>Adding 32 to a code unit whose bit 5 is clear, as an upper-case letter's is.\<close>

definition setBit5 :: "char \<Rightarrow> char" where
  "setBit5 c = (case c of Char b0 b1 b2 b3 b4 b5 b6 b7 \<Rightarrow> Char b0 b1 b2 b3 b4 True b6 b7)"

text \<open>Case folding of the ASCII letters \<^verbatim>\<open>A\<close> (65) to \<^verbatim>\<open>Z\<close> (90) only: the \<^verbatim>\<open>i\<close> flag of a
  regular expression on the ASCII patterns of this program (a code unit of 128 or more
  never folds to an ASCII one), and \<^verbatim>\<open>LOWER\<close> and \<^verbatim>\<open>LIKE\<close> of SQLite.\<close>

definition asciiLower :: "char \<Rightarrow> char" where
  "asciiLower c =
     (let n = (of_char c :: nat) in if 65 \<le> n \<and> n \<le> 90 then setBit5 c else c)"

text \<open>\<^verbatim>\<open>String.prototype.toLowerCase\<close> on the code units below 256: the ASCII letters and
  the Latin-1 letters 192 to 222, without the multiplication sign 215.\<close>

definition toLowerCase_char :: "char \<Rightarrow> char" where
  "toLowerCase_char c =
     (let n = (of_char c :: nat) in
      if (65 \<le> n \<and> n \<le> 90) \<or> (192 \<le> n \<and> n \<le> 222 \<and> n \<noteq> 215) then setBit5 c else c)"

definition toLowerCase :: "string \<Rightarrow> string" where
  "toLowerCase s = map toLowerCase_char s"

definition trim :: "string \<Rightarrow> string" where
  "trim s = rev (dropWhile isWhiteSpace (rev (dropWhile isWhiteSpace s)))"

text \<open>\<^verbatim>\<open>s.split(/\s+/)\<close>: every maximal run of white space is one separator; a run at
  the start or at the end leaves an empty first or last piece.\<close>

fun splitWhitespace :: "string \<Rightarrow> string list" where
  "splitWhitespace [] = [[]]"
| "splitWhitespace (c # cs) =
     (if isWhiteSpace c
      then (if cs \<noteq> [] \<and> isWhiteSpace (hd cs) then splitWhitespace cs
            else [] # splitWhitespace cs)
      else (case splitWhitespace cs of [] \<Rightarrow> [[c]] | t # ts \<Rightarrow> (c # t) # ts))"

text \<open>A literal of a pattern with the \<^verbatim>\<open>i\<close> flag, matched at the start of the text.\<close>

fun startsWith_ci :: "string \<Rightarrow> string \<Rightarrow> bool" where
  "startsWith_ci [] s = True"
| "startsWith_ci (p # ps) [] = False"
| "startsWith_ci (p # ps) (c # cs) =
     (if asciiLower p = asciiLower c then startsWith_ci ps cs else False)"

section \<open>Research workflow: topic and keyword extraction\<close>

text \<open>The tail \<^verbatim>\<open>(.*?)(\?|$)\<close> of the three question patterns, matched at the start of the
  text: the shortest run of characters other than line terminators that is followed by a
  question mark or by the end of the text. The result is the pair of the two groups.\<close>

fun lazy_capture :: "string \<Rightarrow> (string \<times> string) option" where
  "lazy_capture [] = Some ([], [])"
| "lazy_capture (c # cs) =
     (if c = CHR ''?'' then Some ([], [c])
      else if isLineTerminator c then None
      else (case lazy_capture cs of None \<Rightarrow> None | Some (g, e) \<Rightarrow> Some (c # g, e)))"

text \<open>The four patterns of \<^verbatim>\<open>extractTopic\<close> have two shapes: one group of alternative
  literals, and alternative literal heads followed by \<^verbatim>\<open>(.*?)(\?|$)\<close>
  (\<^verbatim>\<open>what (?:is|was|were) \<close> is the three heads it stands for).\<close>

datatype pattern = Subject "string list" | Question "string list"

text \<open>A match at the start of the text, as the pair of \<^verbatim>\<open>match[0]\<close> and \<^verbatim>\<open>match[1]\<close>.
  Alternatives are tried in order; a head whose tail fails gives way to the next head.\<close>

fun match_subject :: "string list \<Rightarrow> string \<Rightarrow> (string \<times> string) option" where
  "match_subject [] s = None"
| "match_subject (a # as) s =
     (if startsWith_ci a s then Some (take (length a) s, take (length a) s)
      else match_subject as s)"

fun match_question :: "string list \<Rightarrow> string \<Rightarrow> (string \<times> string) option" where
  "match_question [] s = None"
| "match_question (a # as) s =
     (if startsWith_ci a s
      then (case lazy_capture (drop (length a) s) of
              Some (g, e) \<Rightarrow> Some (take (length a) s @ g @ e, g)
            | None \<Rightarrow> match_question as s)
      else match_question as s)"

fun match_here :: "pattern \<Rightarrow> string \<Rightarrow> (string \<times> string) option" where
  "match_here (Subject as) s = match_subject as s"
| "match_here (Question as) s = match_question as s"

text \<open>\<^verbatim>\<open>message.match(pattern)\<close>: the match at the leftmost position that has one.\<close>

fun regex_match :: "pattern \<Rightarrow> string \<Rightarrow> (string \<times> string) option" where
  "regex_match p [] = match_here p []"
| "regex_match p (c # cs) =
     (case match_here p (c # cs) of Some m \<Rightarrow> Some m | None \<Rightarrow> regex_match p cs)"

definition subjects :: "string list" where
  "subjects = [''spindletop'', ''beaumont'', ''port arthur'', ''orange'', ''lumber'', ''oil'',
               ''shipbuilding'', ''cajun'']"

definition patterns :: "pattern list" where
  "patterns =
    [Subject subjects,
     Question [''tell me about ''],
     Question [''what is '', ''what was '', ''what were ''],
     Question [''how did '']]"

fun extractTopic_loop :: "pattern list \<Rightarrow> string \<Rightarrow> string option" where
  "extractTopic_loop [] message = None"
| "extractTopic_loop (p # ps) message =
     (case regex_match p message of
        Some (m0, m1) \<Rightarrow> Some (if m1 \<noteq> [] then trim m1 else trim m0)
      | None \<Rightarrow> extractTopic_loop ps message)"

definition extractTopic :: "string \<Rightarrow> string option" where
  "extractTopic message = extractTopic_loop patterns message"

definition commonWords :: "string list" where
  "commonWords = [''tell'', ''me'', ''about'', ''what'', ''is'', ''was'', ''were'', ''how'',
                  ''did'', ''the'', ''a'', ''an'']"

text \<open>\<^verbatim>\<open>word.replace(/[?!.,]/, '')\<close>: the pattern has no \<^verbatim>\<open>g\<close> flag, so only the first
  such character goes.\<close>

fun replace_first_punct :: "string \<Rightarrow> string" where
  "replace_first_punct [] = []"
| "replace_first_punct (c # cs) =
     (if c \<in> set ''?!.,'' then cs else c # replace_first_punct cs)"

fun extractKeywords_loop :: "string list \<Rightarrow> string list \<Rightarrow> string list" where
  "extractKeywords_loop keywords [] = keywords"
| "extractKeywords_loop keywords (word # words) =
     (if length word > 3 \<and> word \<notin> set commonWords
      then extractKeywords_loop (keywords @ [replace_first_punct word]) words
      else extractKeywords_loop keywords words)"

definition extractKeywords :: "string \<Rightarrow> string list" where
  "extractKeywords message =
     take 5 (extractKeywords_loop [] (splitWhitespace (toLowerCase message)))"


section \<open>More of the JavaScript library\<close>

text \<open>Truthiness of a value that is a string, \<^verbatim>\<open>null\<close> or \<^verbatim>\<open>undefined\<close>.\<close>

definition truthy :: "string option \<Rightarrow> bool" where
  "truthy v = (case v of None \<Rightarrow> False | Some s \<Rightarrow> s \<noteq> [])"

text \<open>\<^verbatim>\<open>a || b\<close> on such a value, with a string for \<^verbatim>\<open>b\<close>.\<close>

definition or_else :: "string option \<Rightarrow> string \<Rightarrow> string" where
  "or_else v d = (case v of None \<Rightarrow> d | Some s \<Rightarrow> if s \<noteq> [] then s else d)"

text \<open>\<^verbatim>\<open>s.includes(t)\<close>.\<close>

fun str_includes :: "string \<Rightarrow> string \<Rightarrow> bool" where
  "str_includes [] t = (t = [])"
| "str_includes (c # cs) t = (if prefix t (c # cs) then True else str_includes cs t)"

definition endsWith :: "string \<Rightarrow> string \<Rightarrow> bool" where
  "endsWith s t = prefix (rev t) (rev s)"

text \<open>\<^verbatim>\<open>xs.join(sep)\<close> on an array of strings.\<close>

fun join :: "string \<Rightarrow> string list \<Rightarrow> string" where
  "join sep [] = []"
| "join sep [x] = x"
| "join sep (x # y # ys) = x @ sep @ join sep (y # ys)"

text \<open>\<^verbatim>\<open>s.replace(/C+/g, '-')\<close> for a character class \<^verbatim>\<open>C\<close>: every maximal run of
  characters of the class becomes one hyphen.\<close>

fun replace_runs :: "(char \<Rightarrow> bool) \<Rightarrow> string \<Rightarrow> string" where
  "replace_runs P [] = []"
| "replace_runs P (c # cs) =
     (if P c
      then (if cs \<noteq> [] \<and> P (hd cs) then replace_runs P cs else CHR ''-'' # replace_runs P cs)
      else c # replace_runs P cs)"

definition isLowerAlnum :: "char \<Rightarrow> bool" where
  "isLowerAlnum c \<longleftrightarrow>
     (let n = (of_char c :: nat) in (97 \<le> n \<and> n \<le> 122) \<or> (48 \<le> n \<and> n \<le> 57))"

text \<open>Decimal digits of a number, as string interpolation writes a non-negative integer.\<close>

definition digit :: "nat \<Rightarrow> char" where
  "digit n = ''0123456789'' ! n"

function showNat :: "nat \<Rightarrow> string" where
  "showNat n = (if n < 10 then [digit n] else showNat (n div 10) @ [digit (n mod 10)])"
  by pat_completeness auto
termination
  by (relation "measure id") auto

declare showNat.simps [simp del]

definition showInt :: "int \<Rightarrow> string" where
  "showInt i = (if i < 0 then CHR ''-'' # showNat (nat (- i)) else showNat (nat i))"

text \<open>\<^verbatim>\<open>encodeURIComponent\<close>: the unreserved characters stay, every other code unit is
  written as the percent-escaped bytes of its UTF-8 encoding (one byte below 128, two
  bytes from 128 to 255).\<close>

definition uriUnreserved :: string where
  "uriUnreserved =
     ''ABCDEFGHIJKLMNOPQRSTUVWXYZabcdefghijklmnopqrstuvwxyz0123456789-_.!~*'()''"

definition percentByte :: "nat \<Rightarrow> string" where
  "percentByte n =
     [CHR ''%'', ''0123456789ABCDEF'' ! (n div 16), ''0123456789ABCDEF'' ! (n mod 16)]"

definition encodeURIComponent_char :: "char \<Rightarrow> string" where
  "encodeURIComponent_char c =
     (let n = (of_char c :: nat) in
      if c \<in> set uriUnreserved then [c]
      else if n < 128 then percentByte n
      else percentByte (192 + n div 64) @ percentByte (128 + n mod 64))"

definition encodeURIComponent :: "string \<Rightarrow> string" where
  "encodeURIComponent s = concat (map encodeURIComponent_char s)"

text \<open>\<^verbatim>\<open>path.join(a, b)\<close> of Node.js on POSIX: the non-empty arguments joined by a slash,
  then normalised (empty and \<^verbatim>\<open>.\<close> segments dropped, \<^verbatim>\<open>..\<close> resolved).\<close>

fun splitOn :: "char \<Rightarrow> string \<Rightarrow> string list" where
  "splitOn d [] = [[]]"
| "splitOn d (c # cs) =
     (if c = d then [] # splitOn d cs
      else (case splitOn d cs of [] \<Rightarrow> [[c]] | t # ts \<Rightarrow> (c # t) # ts))"

fun normalizeSegments :: "bool \<Rightarrow> string list \<Rightarrow> string list \<Rightarrow> string list" where
  "normalizeSegments allowAboveRoot res [] = rev res"
| "normalizeSegments allowAboveRoot res (s # ss) =
     (if s = [] \<or> s = ''.'' then normalizeSegments allowAboveRoot res ss
      else if s = ''..'' then
        (if res \<noteq> [] \<and> hd res \<noteq> ''..'' then normalizeSegments allowAboveRoot (tl res) ss
         else if allowAboveRoot then normalizeSegments allowAboveRoot (s # res) ss
         else normalizeSegments allowAboveRoot res ss)
      else normalizeSegments allowAboveRoot (s # res) ss)"

definition path_normalize :: "string \<Rightarrow> string" where
  "path_normalize p =
     (if p = [] then ''.''
      else
        (let isAbsolute = (hd p = CHR ''/'');
             trailingSeparator = (last p = CHR ''/'');
             body = join ''/'' (normalizeSegments (\<not> isAbsolute) [] (splitOn CHR ''/'' p))
         in if body = [] then (if isAbsolute then ''/'' else if trailingSeparator then ''./'' else ''.'')
            else (if isAbsolute then ''/'' else []) @ body @ (if trailingSeparator then ''/'' else [])))"

definition path_join :: "string \<Rightarrow> string \<Rightarrow> string" where
  "path_join a b = path_normalize (join ''/'' (filter (\<lambda>s. s \<noteq> []) [a, b]))"

section \<open>The world outside the program\<close>

text \<open>
  The program talks to an HTTP archive, to the file system, to an SQLite database and to
  the clock. The state of the database and of the disk is the \<open>world\<close>; what the outside
  answers is the \<open>env\<close>, a family of oracles. Every request of one kind is numbered in
  the order in which the program makes it, so an oracle can answer the same request
  differently at different times, and any course of failures is some environment.
\<close>

datatype transport_failure = TimedOut | Unreachable

datatype 'a http_reply = Failed transport_failure | Reply nat 'a

record loc_resource =
  res_url :: "string option"
  res_mime_type :: "string option"

record loc_image =
  img_full :: "string option"

record loc_item =
  item_title :: "string option"
  item_image :: "loc_image option"
  item_resources :: "loc_resource list option"
  item_reproduction_number :: "string option"

text \<open>The parsed body of a search response: \<^verbatim>\<open>response.data.results\<close>, or nothing when the
  body or its \<^verbatim>\<open>results\<close> is missing.\<close>

type_synonym search_data = "loc_item list option"

record env =
  search_reply :: "nat \<Rightarrow> string \<Rightarrow> search_data http_reply"
  download_reply :: "nat \<Rightarrow> string \<Rightarrow> string http_reply"
  fs_fails :: "nat \<Rightarrow> bool"
  db_fails :: "nat \<Rightarrow> bool"
  date_now :: "nat \<Rightarrow> nat"
  locale_string :: "nat \<Rightarrow> string"
  sql_now :: "nat \<Rightarrow> string"
  dirname :: string

record topic_row =
  tr_id :: int
  tr_topic :: string
  tr_keywords :: "string list"
  tr_user_id :: string
  tr_researched_at :: string
  tr_presentation_generated :: int

record media_row =
  mr_id :: int
  mr_topic_id :: int
  mr_media_path :: string
  mr_title :: "string option"
  mr_source :: "string option"
  mr_collected_at :: string

record presentation_row =
  pr_id :: int
  pr_topic_id :: int
  pr_title :: string
  pr_content :: "string option"
  pr_html_path :: "string option"
  pr_created_at :: string

record consolidated_row =
  cp_id :: int
  cp_main_topic :: string
  cp_display_name :: string
  cp_html_path :: string
  cp_created_at :: string

record historical_topic_row =
  ht_id :: int
  ht_name :: string

record historical_city_row =
  hc_id :: int
  hc_name :: string

record fact_row =
  hf_id :: int
  hf_title :: string
  hf_content :: string
  hf_event_year :: "int option"
  hf_city_id :: "int option"
  hf_topic_id :: "int option"
  hf_source_name :: "string option"
  hf_image_url :: "string option"
  hf_importance :: "int option"

text \<open>The tables hold their rows in row-id order; \<open>_seq\<close> is the largest id the table has
  given out (\<^verbatim>\<open>AUTOINCREMENT\<close>). The keyword list of a researched topic is stored by the
  source as its JSON text; the row keeps the list.\<close>

record world =
  http_calls :: nat
  fs_calls :: nat
  db_calls :: nat
  clock_reads :: nat
  files :: "string \<Rightarrow> string option"
  topics_researched :: "topic_row list"
  topics_researched_seq :: int
  topic_media :: "media_row list"
  topic_media_seq :: int
  presentations :: "presentation_row list"
  presentations_seq :: int
  consolidated_pages :: "consolidated_row list"
  consolidated_pages_seq :: int
  historical_topics :: "historical_topic_row list"
  historical_cities :: "historical_city_row list"
  historical_facts :: "fact_row list"

datatype error =
    SqliteError
  | FileSystemError
  | TopicNotFound int

text \<open>\<^verbatim>\<open>fs.writeFileSync(path, data)\<close>: throws, or stores the data.\<close>

definition writeFileSync :: "env \<Rightarrow> world \<Rightarrow> string \<Rightarrow> string \<Rightarrow> (error + unit) \<times> world" where
  "writeFileSync e w filepath content =
     (if fs_fails e (fs_calls w) then (Inl FileSystemError, w\<lparr>fs_calls := Suc (fs_calls w)\<rparr>)
      else (Inr (), w\<lparr>fs_calls := Suc (fs_calls w), files := (files w)(filepath \<mapsto> content)\<rparr>))"


section \<open>Media agent\<close>

datatype media_type = Image | Audio | Video

record media_item =
  mi_title :: string
  mi_url :: string
  mi_source :: string
  mi_type :: media_type
  mi_reproduction_number :: "string option"

record collected_media =
  cm_filepath :: string
  cm_title :: string
  cm_source :: string
  cm_type :: media_type
  cm_topic :: string
  cm_reproduction_number :: "string option"

definition imageDir :: "env \<Rightarrow> string" where
  "imageDir e = path_join (dirname e) ''public/images/historical''"

text \<open>The loop over the image results.\<close>

fun image_loop :: "string \<Rightarrow> media_item list \<Rightarrow> loc_item list \<Rightarrow> media_item list" where
  "image_loop query allMedia [] = allMedia"
| "image_loop query allMedia (item # items) =
     (case item_image item of
        None \<Rightarrow> image_loop query allMedia items
      | Some img \<Rightarrow>
          (if truthy (img_full img)
           then image_loop query
                  (allMedia @ [\<lparr>mi_title = or_else (item_title item) query,
                               mi_url = the (img_full img),
                               mi_source = ''Library of Congress - Images'',
                               mi_type = Image,
                               mi_reproduction_number = item_reproduction_number item\<rparr>])
                  items
           else image_loop query allMedia items))"

text \<open>\<^verbatim>\<open>url.match(/\.(e1|e2|...)$/i)\<close> for a list of extensions.\<close>

definition hasExtension :: "string list \<Rightarrow> string \<Rightarrow> bool" where
  "hasExtension exts url = list_ex (\<lambda>x. startsWith_ci (rev (CHR ''.'' # x)) (rev url)) exts"

text \<open>The predicate of \<^verbatim>\<open>item.resources.find\<close>, for the words looked for in the MIME type
  and the extensions looked for in the URL.\<close>

definition isMediaResource :: "string list \<Rightarrow> string list \<Rightarrow> loc_resource \<Rightarrow> bool" where
  "isMediaResource mimeWords exts r =
     (if \<not> truthy (res_url r) then False
      else (truthy (res_mime_type r) \<and> list_ex (str_includes (the (res_mime_type r))) mimeWords)
           \<or> hasExtension exts (the (res_url r)))"

text \<open>The resource an audio or video item contributes: the one found, or else the first
  resource when its URL has one of the extensions.\<close>

definition chooseResource :: "string list \<Rightarrow> string list \<Rightarrow> loc_resource list \<Rightarrow> string option" where
  "chooseResource mimeWords exts resources =
     (case find (isMediaResource mimeWords exts) resources of
        Some r \<Rightarrow> res_url r
      | None \<Rightarrow>
          (case resources of
             [] \<Rightarrow> None
           | firstResource # _ \<Rightarrow>
               (if truthy (res_url firstResource)
                     \<and> hasExtension exts (the (res_url firstResource))
                then res_url firstResource else None)))"

text \<open>The loop over the audio results and the loop over the video results; the source
  writes the same loop twice, with its own words, extensions, label and type.\<close>

fun resource_loop ::
  "string list \<Rightarrow> string list \<Rightarrow> string \<Rightarrow> media_type \<Rightarrow> string \<Rightarrow> media_item list
     \<Rightarrow> loc_item list \<Rightarrow> media_item list" where
  "resource_loop mimeWords exts label ty query allMedia [] = allMedia"
| "resource_loop mimeWords exts label ty query allMedia (item # items) =
     (case item_resources item of
        None \<Rightarrow> resource_loop mimeWords exts label ty query allMedia items
      | Some resources \<Rightarrow>
          (case chooseResource mimeWords exts resources of
             None \<Rightarrow> resource_loop mimeWords exts label ty query allMedia items
           | Some url \<Rightarrow>
               resource_loop mimeWords exts label ty query
                 (allMedia @ [\<lparr>mi_title = or_else (item_title item) query,
                              mi_url = url,
                              mi_source = label,
                              mi_type = ty,
                              mi_reproduction_number = item_reproduction_number item\<rparr>])
                 items))"

definition audioMimeWords :: "string list" where
  "audioMimeWords = [''audio'', ''mp3'', ''wav'', ''aiff'', ''flac'']"

definition audioExtensions :: "string list" where
  "audioExtensions = [''mp3'', ''wav'', ''aiff'', ''flac'', ''aac'', ''m4a'', ''ogg'']"

definition videoMimeWords :: "string list" where
  "videoMimeWords = [''video'', ''mp4'', ''mov'', ''avi'', ''wmv'', ''flv'']"

definition videoExtensions :: "string list" where
  "videoExtensions = [''mp4'', ''mov'', ''avi'', ''wmv'', ''flv'', ''mkv'', ''m4v'']"

definition imageSearchUrl :: "string \<Rightarrow> string" where
  "imageSearchUrl query =
     ''https://www.loc.gov/pictures/search/?q='' @ encodeURIComponent query @ ''&fo=json''"

definition audioSearchUrl :: "string \<Rightarrow> string" where
  "audioSearchUrl query = ''https://www.loc.gov/audio/?q='' @ encodeURIComponent query @ ''&fo=json''"

definition videoSearchUrl :: "string \<Rightarrow> string" where
  "videoSearchUrl query = ''https://www.loc.gov/film/?q='' @ encodeURIComponent query @ ''&fo=json''"

text \<open>\<^verbatim>\<open>axios.get(url)\<close> of a search, inside its own \<^verbatim>\<open>try\<close>: a transport failure or a
  status outside 200 to 299 throws, and the \<^verbatim>\<open>catch\<close> leaves the results of that kind
  out. The result is the array \<^verbatim>\<open>response.data.results\<close> when there is one.\<close>

definition search_get :: "env \<Rightarrow> world \<Rightarrow> string \<Rightarrow> loc_item list option \<times> world" where
  "search_get e w url =
     (case search_reply e (http_calls w) url of
        Failed f \<Rightarrow> None
      | Reply status data \<Rightarrow> (if 200 \<le> status \<and> status < 300 then data else None),
      w\<lparr>http_calls := Suc (http_calls w)\<rparr>)"

text \<open>\<^verbatim>\<open>maxResults\<close> is a count of results: \<^verbatim>\<open>slice(0, maxResults)\<close> is \<^const>\<open>take\<close> and
  \<^verbatim>\<open>Math.floor(maxResults/2)\<close> is \<open>maxResults div 2\<close>.\<close>

definition searchLibraryOfCongress ::
  "env \<Rightarrow> world \<Rightarrow> string \<Rightarrow> nat \<Rightarrow> media_item list \<times> world" where
  "searchLibraryOfCongress e w query maxResults =
     (let allMedia = [];
          (imageResults, w1) = search_get e w (imageSearchUrl query);
          allMedia = (case imageResults of
                        None \<Rightarrow> allMedia
                      | Some results \<Rightarrow> image_loop query allMedia (take maxResults results));
          (audioResults, w2) = search_get e w1 (audioSearchUrl query);
          allMedia = (case audioResults of
                        None \<Rightarrow> allMedia
                      | Some results \<Rightarrow>
                          resource_loop audioMimeWords audioExtensions
                            ''Library of Congress - Audio'' Audio query allMedia
                            (take (maxResults div 2) results));
          (videoResults, w3) = search_get e w2 (videoSearchUrl query);
          allMedia = (case videoResults of
                        None \<Rightarrow> allMedia
                      | Some results \<Rightarrow>
                          resource_loop videoMimeWords videoExtensions
                            ''Library of Congress - Video'' Video query allMedia
                            (take (maxResults div 2) results))
      in (take maxResults allMedia, w3))"

definition extensionOf :: "media_type \<Rightarrow> string" where
  "extensionOf ty = (case ty of Audio \<Rightarrow> ''.mp3'' | Video \<Rightarrow> ''.mp4'' | Image \<Rightarrow> ''.jpg'')"

text \<open>\<^verbatim>\<open>filename.replace(/\.[^/.]+$/, "")\<close>: the last dot and what follows it go, when
  something follows it and no slash does.\<close>

definition stripExtension :: "string \<Rightarrow> string" where
  "stripExtension filename =
     (let r = rev filename;
          after = takeWhile (\<lambda>c. c \<noteq> CHR ''.'') r;
          before = dropWhile (\<lambda>c. c \<noteq> CHR ''.'') r
      in if before \<noteq> [] \<and> after \<noteq> [] \<and> CHR ''/'' \<notin> set after
         then rev (tl before) else filename)"

text \<open>\<^verbatim>\<open>downloadMedia\<close>: every failure inside is caught and turns into \<^verbatim>\<open>null\<close>. The
  request succeeds only with status 200 (\<^verbatim>\<open>validateStatus\<close>).\<close>

definition downloadMedia ::
  "env \<Rightarrow> world \<Rightarrow> string \<Rightarrow> string \<Rightarrow> media_type \<Rightarrow> string option \<times> world" where
  "downloadMedia e w url filename mediaType =
     (if url = [] \<or> filename = [] then (None, w)
      else
        (let extension = extensionOf mediaType;
             filename = (if \<not> endsWith filename extension
                         then stripExtension filename @ extension else filename);
             w1 = w\<lparr>http_calls := Suc (http_calls w)\<rparr>
         in case download_reply e (http_calls w) url of
              Failed f \<Rightarrow> (None, w1)
            | Reply status data \<Rightarrow>
                (if status \<noteq> 200 then (None, w1)
                 else if data = [] then (None, w1)
                 else
                   (let filepath = path_join (imageDir e) filename
                    in case writeFileSync e w1 filepath data of
                         (Inl err, w2) \<Rightarrow> (None, w2)
                       | (Inr u, w2) \<Rightarrow> (Some filepath, w2)))))"

definition mediaSuffix :: "media_type \<Rightarrow> string" where
  "mediaSuffix ty = (if ty = Audio then ''mp3'' else if ty = Video then ''mp4'' else ''jpg'')"

text \<open>The body of the download loop of \<^verbatim>\<open>collectMediaForTopic\<close>, and the loop.\<close>

definition collect_step ::
  "env \<Rightarrow> string \<Rightarrow> collected_media list \<times> world \<Rightarrow> media_item
     \<Rightarrow> collected_media list \<times> world" where
  "collect_step e topic st media =
     (let (downloadedMedia, w) = st;
          cleanTitle = take 30 (replace_runs (\<lambda>c. \<not> isLowerAlnum c) (toLowerCase (mi_title media)));
          timestamp = date_now e (clock_reads w);
          w1 = w\<lparr>clock_reads := Suc (clock_reads w)\<rparr>;
          filename = replace_runs isWhiteSpace (toLowerCase topic) @ ''-'' @ cleanTitle @ ''-''
                       @ showNat timestamp;
          (filepath, w2) = downloadMedia e w1 (mi_url media) filename (mi_type media)
      in if truthy filepath
         then (downloadedMedia @
                 [\<lparr>cm_filepath = ''/images/historical/'' @ filename @ ''.''
                                   @ mediaSuffix (mi_type media),
                   cm_title = mi_title media,
                   cm_source = mi_source media,
                   cm_type = mi_type media,
                   cm_topic = topic,
                   cm_reproduction_number = mi_reproduction_number media\<rparr>], w2)
         else (downloadedMedia, w2))"

fun collect_loop ::
  "env \<Rightarrow> string \<Rightarrow> collected_media list \<times> world \<Rightarrow> media_item list
     \<Rightarrow> collected_media list \<times> world" where
  "collect_loop e topic st [] = st"
| "collect_loop e topic st (media # mediaItems) =
     collect_loop e topic (collect_step e topic st media) mediaItems"

definition collectMediaForTopic ::
  "env \<Rightarrow> world \<Rightarrow> string \<Rightarrow> string list \<Rightarrow> collected_media list \<times> world" where
  "collectMediaForTopic e w topic keywords =
     (let searchQuery = join '' '' ([topic] @ keywords @ [''Texas history'']);
          (mediaItems, w1) = searchLibraryOfCongress e w searchQuery 10
      in collect_loop e topic ([], w1) mediaItems)"

text \<open>The two inserts. A failing statement rejects the promise; the statement still
  counts as made.\<close>

definition storeResearchedTopic ::
  "env \<Rightarrow> world \<Rightarrow> string \<Rightarrow> string list \<Rightarrow> string \<Rightarrow> (error + int) \<times> world" where
  "storeResearchedTopic e w topic keywords userId =
     (let w1 = w\<lparr>db_calls := Suc (db_calls w)\<rparr>
      in if db_fails e (db_calls w) then (Inl SqliteError, w1)
         else
           (let lastID = topics_researched_seq w + 1
            in (Inr lastID,
                w1\<lparr>topics_researched := topics_researched w @
                      [\<lparr>tr_id = lastID, tr_topic = topic, tr_keywords = keywords,
                        tr_user_id = userId, tr_researched_at = sql_now e (db_calls w),
                        tr_presentation_generated = 0\<rparr>],
                    topics_researched_seq := lastID\<rparr>)))"

definition linkMediaToTopic ::
  "env \<Rightarrow> world \<Rightarrow> int \<Rightarrow> string \<Rightarrow> string \<Rightarrow> string \<Rightarrow> (error + int) \<times> world" where
  "linkMediaToTopic e w topicId mediaPath title source =
     (let w1 = w\<lparr>db_calls := Suc (db_calls w)\<rparr>
      in if db_fails e (db_calls w) then (Inl SqliteError, w1)
         else
           (let lastID = topic_media_seq w + 1
            in (Inr lastID,
                w1\<lparr>topic_media := topic_media w @
                      [\<lparr>mr_id = lastID, mr_topic_id = topicId, mr_media_path = mediaPath,
                        mr_title = Some title, mr_source = Some source,
                        mr_collected_at = sql_now e (db_calls w)\<rparr>],
                    topic_media_seq := lastID\<rparr>)))"

record research_result =
  rr_topicId :: int
  rr_topic :: string
  rr_mediaCount :: nat
  rr_media :: "collected_media list"
  rr_factsAdded :: nat

text \<open>The linking loop of \<^verbatim>\<open>researchAndCollect\<close>: the first insert that fails ends the
  call with its error.\<close>

fun link_loop ::
  "env \<Rightarrow> world \<Rightarrow> int \<Rightarrow> nat \<Rightarrow> collected_media list \<Rightarrow> (error + nat) \<times> world" where
  "link_loop e w topicId factsAdded [] = (Inr factsAdded, w)"
| "link_loop e w topicId factsAdded (item # media) =
     (case linkMediaToTopic e w topicId (cm_filepath item) (cm_title item) (cm_source item) of
        (Inl err, w1) \<Rightarrow> (Inl err, w1)
      | (Inr lastID, w1) \<Rightarrow> link_loop e w1 topicId (Suc factsAdded) media)"

text \<open>\<^verbatim>\<open>existingTopicId\<close> is a number or \<^verbatim>\<open>null\<close>; \<^verbatim>\<open>!existingTopicId\<close> holds for
  \<^verbatim>\<open>null\<close> and for \<^verbatim>\<open>0\<close>.\<close>

definition falsyId :: "int option \<Rightarrow> bool" where
  "falsyId v = (case v of None \<Rightarrow> True | Some n \<Rightarrow> n = 0)"

definition researchAndCollect ::
  "env \<Rightarrow> world \<Rightarrow> string \<Rightarrow> string list \<Rightarrow> int option \<Rightarrow> (error + research_result) \<times> world" where
  "researchAndCollect e w topic keywords existingTopicId =
     (case (if falsyId existingTopicId then storeResearchedTopic e w topic keywords ''default''
            else (Inr (the existingTopicId), w)) of
        (Inl err, w1) \<Rightarrow> (Inl err, w1)
      | (Inr topicId, w1) \<Rightarrow>
          (let (media, w2) = collectMediaForTopic e w1 topic keywords
           in case link_loop e w2 topicId 0 media of
                (Inl err, w3) \<Rightarrow> (Inl err, w3)
              | (Inr factsAdded, w3) \<Rightarrow>
                  (Inr \<lparr>rr_topicId = topicId, rr_topic = topic, rr_mediaCount = length media,
                        rr_media = media, rr_factsAdded = factsAdded\<rparr>, w3)))"


section \<open>Presentation builder\<close>

definition presentationsDir :: "env \<Rightarrow> string" where
  "presentationsDir e = path_join (dirname e) ''public/presentations''"

text \<open>\<^verbatim>\<open>getTopicData\<close>: the row of the topic, when there is one, and its media rows. Two
  statements; an error of either rejects.\<close>

definition getTopicData ::
  "env \<Rightarrow> world \<Rightarrow> int \<Rightarrow> (error + topic_row option \<times> media_row list) \<times> world" where
  "getTopicData e w topicId =
     (let w1 = w\<lparr>db_calls := Suc (db_calls w)\<rparr>
      in if db_fails e (db_calls w) then (Inl SqliteError, w1)
         else
           (let topic = find (\<lambda>t. tr_id t = topicId) (topics_researched w);
                w2 = w1\<lparr>db_calls := Suc (db_calls w1)\<rparr>
            in if db_fails e (db_calls w1) then (Inl SqliteError, w2)
               else (Inr (topic, filter (\<lambda>m. mr_topic_id m = topicId) (topic_media w)), w2)))"

text \<open>One match of \<^verbatim>\<open>\s+w1\s+w2...\<close> (flag \<^verbatim>\<open>i\<close>) at the start of the text, for the words
  \<open>w1\<close>, \<open>w2\<close>, ...: what follows the match.\<close>

fun match_words :: "string list \<Rightarrow> string \<Rightarrow> string option" where
  "match_words [] s = Some s"
| "match_words (wd # wds) s =
     (if s \<noteq> [] \<and> isWhiteSpace (hd s)
      then (let r = dropWhile isWhiteSpace s
            in if startsWith_ci wd r then match_words wds (drop (length wd) r) else None)
      else None)"

text \<open>\<^verbatim>\<open>s.replace(/\s+w1\s+w2.../gi, '')\<close>: from left to right, the characters of each
  match are dropped and the scan goes on behind the match. The second argument counts
  the characters of the current match still to drop.\<close>

fun remove_matches :: "string list \<Rightarrow> nat \<Rightarrow> string \<Rightarrow> string" where
  "remove_matches wds n [] = []"
| "remove_matches wds (Suc n) (c # cs) = remove_matches wds n cs"
| "remove_matches wds 0 (c # cs) =
     (case match_words wds (c # cs) of
        None \<Rightarrow> c # remove_matches wds 0 cs
      | Some rest \<Rightarrow>
          (if length rest \<le> length cs then remove_matches wds (length cs - length rest) cs
           else c # remove_matches wds 0 cs))"

definition cleanTopic :: "string \<Rightarrow> string" where
  "cleanTopic topic =
     trim (remove_matches [''in'', ''texas'', ''history''] 0
             (remove_matches [''in'', ''southeast'', ''texas'', ''history''] 0 topic))"

text \<open>\<^verbatim>\<open>text LIKE pattern\<close> of SQLite: \<^verbatim>\<open>%\<close> stands for any run of characters, \<^verbatim>\<open>_\<close> for
  any one character, and ASCII letters match without regard to case.\<close>

fun sql_like :: "string \<Rightarrow> string \<Rightarrow> bool" where
  "sql_like [] s = (s = [])"
| "sql_like (p # ps) [] = (if p = CHR ''%'' then sql_like ps [] else False)"
| "sql_like (p # ps) (c # cs) =
     (if p = CHR ''%'' then (if sql_like ps (c # cs) then True else sql_like (p # ps) cs)
      else if p = CHR ''_'' \<or> asciiLower p = asciiLower c then sql_like ps cs
      else False)"

text \<open>\<^verbatim>\<open>LOWER(column) LIKE LOWER(?)\<close> on a column that may be \<^verbatim>\<open>NULL\<close>: a \<^verbatim>\<open>NULL\<close> does not
  satisfy the condition.\<close>

definition lower_like :: "string option \<Rightarrow> string \<Rightarrow> bool" where
  "lower_like column pattern =
     (case column of
        None \<Rightarrow> False
      | Some s \<Rightarrow> sql_like (map asciiLower pattern) (map asciiLower s))"

text \<open>A fact with the names that the two \<^verbatim>\<open>LEFT JOIN\<close>s add. The ids of the cities and of
  the topics are primary keys, so a fact joins with at most one row of each.\<close>

record joined_fact = fact_row +
  city_name :: "string option"
  topic_name :: "string option"

definition join_fact :: "world \<Rightarrow> fact_row \<Rightarrow> joined_fact" where
  "join_fact w f =
     fact_row.extend f
       \<lparr>city_name = (case hf_city_id f of
                       None \<Rightarrow> None
                     | Some i \<Rightarrow> map_option hc_name (find (\<lambda>c. hc_id c = i) (historical_cities w))),
        topic_name = (case hf_topic_id f of
                       None \<Rightarrow> None
                     | Some i \<Rightarrow> map_option ht_name (find (\<lambda>t. ht_id t = i) (historical_topics w)))\<rparr>"

text \<open>\<^verbatim>\<open>ORDER BY hf.importance DESC, hf.event_year DESC\<close>: a \<^verbatim>\<open>NULL\<close> is below every
  number (the order of \<^typ>\<open>int option\<close>); rows that tie stay in table order.\<close>

definition order_key :: "joined_fact \<Rightarrow> int option \<times> int option" where
  "order_key f = (hf_importance f, hf_event_year f)"

definition order_desc :: "joined_fact list \<Rightarrow> joined_fact list" where
  "order_desc fs = rev (sort_key order_key (rev fs))"

text \<open>The second query of \<^verbatim>\<open>getRelatedFacts\<close>, with its \<^verbatim>\<open>WHERE\<close> clause built from the
  result of the first.\<close>

definition facts_query :: "world \<Rightarrow> historical_topic_row option \<Rightarrow> string \<Rightarrow> joined_fact list" where
  "facts_query w historicalTopic keywords =
     take 10 (order_desc
       (filter
          (case historicalTopic of
             Some ht \<Rightarrow> (\<lambda>f. hf_topic_id f = Some (ht_id ht))
           | None \<Rightarrow> (\<lambda>f. lower_like (topic_name f) keywords
                         \<or> lower_like (Some (hf_title f)) keywords
                         \<or> lower_like (Some (hf_content f)) keywords))
          (map (join_fact w) (historical_facts w))))"

definition getRelatedFacts ::
  "env \<Rightarrow> world \<Rightarrow> string \<Rightarrow> (error + joined_fact list) \<times> world" where
  "getRelatedFacts e w topic =
     (let clean = cleanTopic topic;
          keywords = ''%'' @ clean @ ''%'';
          w1 = w\<lparr>db_calls := Suc (db_calls w)\<rparr>
      in if db_fails e (db_calls w) then (Inl SqliteError, w1)
         else
           (let historicalTopic =
                  find (\<lambda>t. map asciiLower (ht_name t) = map asciiLower clean) (historical_topics w);
                w2 = w1\<lparr>db_calls := Suc (db_calls w1)\<rparr>
            in if db_fails e (db_calls w1) then (Inl SqliteError, w2)
               else (Inr (facts_query w historicalTopic keywords), w2)))"

record gallery_item =
  gi_media_path :: string
  gi_title :: "string option"
  gi_source :: "string option"

definition media_gallery_item :: "media_row \<Rightarrow> gallery_item" where
  "media_gallery_item m =
     \<lparr>gi_media_path = mr_media_path m, gi_title = mr_title m, gi_source = mr_source m\<rparr>"

definition fact_gallery_item :: "joined_fact \<Rightarrow> gallery_item" where
  "fact_gallery_item f =
     \<lparr>gi_media_path = the (hf_image_url f), gi_title = Some (hf_title f),
      gi_source = Some (or_else (hf_source_name f) ''Historical Archive'')\<rparr>"

text \<open>\<^verbatim>\<open>f.image_url && f.image_url.trim() !== ''\<close>.\<close>

definition hasImage :: "joined_fact \<Rightarrow> bool" where
  "hasImage f = (truthy (hf_image_url f) \<and> trim (the (hf_image_url f)) \<noteq> [])"

text \<open>The text of the page template of \<^verbatim>\<open>generatePresentation\<close>, cut at its
  interpolations.\<close>

definition page_open :: string where
  "page_open =
     ''
<!DOCTYPE html>
<html lang=\"en\">
<head>
    <meta charset=\"UTF-8\">
    <meta name=\"viewport\" content=\"width=device-width, initial-scale=1.0\">
    <title>''"

definition page_style :: string where
  "page_style =
     '' - Southeast Texas History</title>
    <style>
        * { margin: 0; padding: 0; box-sizing: border-box; }
        body {
            font-family: -apple-system, BlinkMacSystemFont, 'Segoe UI', Roboto, sans-serif;
            background: linear-gradient(135deg, #1e3c72 0%, #2a5298 100%);
            color: #333;
            padding: 2rem;
            min-height: 100vh;
        }
        
        nav {
            background: rgba(255, 255, 255, 0.95);
            padding: 1rem 2rem;
            box-shadow: 0 2px 10px rgba(0,0,0,0.1);
            margin-bottom: 2rem;
        }
        
        nav ul {
            list-style: none;
            display: flex;
            gap: 2rem;
            align-items: center;
        }
        
        nav a {
            text-decoration: none;
            color: #2a5298;
            font-weight: 600;
            transition: color 0.3s;
        }
        
        nav a:hover {
            color: #1e3c72;
        }
        
        nav .logo {
            font-size: 1.5rem;
            font-weight: 800;
            color: #1e3c72;
        }
        .presentation {
            max-width: 1200px;
            margin: 0 auto;
            background: white;
            border-radius: 20px;
            overflow: hidden;
            box-shadow: 0 20px 60px rgba(0,0,0,0.3);
        }
        .hero {
            background: linear-gradient(135deg, #1e3c72 0%, #2a5298 100%);
            color: white;
            padding: 4rem 3rem;
            text-align: center;
        }
        .hero h1 {
            font-size: 3rem;
            margin-bottom: 1rem;
        }
        .hero p {
            font-size: 1.2rem;
            opacity: 0.9;
        }
        .gallery {
            display: grid;
            grid-template-columns: repeat(auto-fit, minmax(300px, 1fr));
            gap: 0;
        }
        .gallery img {
            width: 100%;
            height: 300px;
            object-fit: cover;
            transition: transform 0.3s;
        }
        .gallery img:hover {
            transform: scale(1.05);
            z-index: 10;
        }
        .content {
            padding: 3rem;
        }
        .fact {
            background: #f8f9fa;
            padding: 2rem;
            margin: 2rem 0;
            border-radius: 12px;
            border-left: 4px solid #2a5298;
        }
        .fact h3 {
            color: #1e3c72;
            margin-bottom: 1rem;
        }
        .fact-meta {
            color: #666;
            font-size: 0.9rem;
            margin-top: 1rem;
        }
        .notes-section {
            margin-top: 3rem;
            padding-top: 2rem;
            border-top: 1px solid #eee;
        }
        .notes-section h2 {
            color: #1e3c72;
            margin-bottom: 1rem;
        }
        .notes-section p {
            margin-bottom: 1.5rem;
            color: #666;
        }
        #personal-notes {
            width: 100%;
            min-height: 200px;
            padding: 1rem;
            border-radius: 8px;
            border: 1px solid #ddd;
            font-family: inherit;
            font-size: 1rem;
            line-height: 1.6;
        }
        #save-notes {
            display: inline-block;
            margin-top: 1rem;
            padding: 0.75rem 1.5rem;
            background: #2a5298;
            color: white;
            border: none;
            border-radius: 8px;
            cursor: pointer;
            font-weight: 600;
            transition: background 0.3s;
        }
        #save-notes:hover {
            background: #1e3c72;
        }
        .timestamp {
            text-align: center;
            padding: 2rem;
            color: #999;
            font-size: 0.9rem;
        }
    </style>
</head>
<body>
    <!-- Navigation -->
    <nav>
        <ul>
            <li><span class=\"logo\">'' @ [CHR 0xF0, CHR 0x9F, CHR 0x8F, CHR 0x9B] @ [CHR 0xEF, CHR 0xB8, CHR 0x8F] @ '' SETX History</span></li>
            <li><a href=\"/\">History Chat</a></li>
            <li><a href=\"/contribute.html\">'' @ [CHR 0xF0, CHR 0x9F, CHR 0xA4, CHR 0x9D] @ '' Contribute</a></li>
        </ul>
    </nav>
    
    <div class=\"presentation\">
        <div class=\"hero\">
            <h1>'' @ [CHR 0xF0, CHR 0x9F, CHR 0x8F, CHR 0x9B] @ [CHR 0xEF, CHR 0xB8, CHR 0x8F] @ '' ''"

definition page_hero_end :: string where
  "page_hero_end =
     ''</h1>
            <p>A Visual Journey Through Southeast Texas History</p>
        </div>

        ''"

definition gallery_open :: string where
  "gallery_open =
     ''
        <div class=\"gallery\">
            ''"

definition img_src :: string where
  "img_src =
     ''
                <img src=\"''"

definition img_alt :: string where
  "img_alt =
     ''\" alt=\"''"

definition img_title :: string where
  "img_title =
     ''\" title=\"''"

definition img_end :: string where
  "img_end =
     ''\" onerror=\"this.style.display='none'\">
            ''"

definition gallery_close :: string where
  "gallery_close =
     ''
        </div>
        ''"

definition content_open :: string where
  "content_open =
     ''

        <div class=\"content\">
            <h2>Historical Facts</h2>
            ''"

definition fact_open :: string where
  "fact_open =
     ''
                <div class=\"fact\">
                    ''"

definition fact_img_src :: string where
  "fact_img_src =
     ''<img src=\"''"

definition fact_img_alt :: string where
  "fact_img_alt =
     ''\" alt=\"''"

definition fact_img_end :: string where
  "fact_img_end =
     ''\" style=\"width: 100%; max-width: 600px; height: auto; border-radius: 8px; margin-bottom: 1rem;\" onerror=\"this.style.display='none'\">''"

definition fact_title_open :: string where
  "fact_title_open =
     ''
                    <h3>''"

definition fact_content_open :: string where
  "fact_content_open =
     ''</h3>
                    <p>''"

definition fact_meta_open :: string where
  "fact_meta_open =
     ''</p>
                    <div class=\"fact-meta\">
                        ''"

definition city_mark :: string where
  "city_mark =
     [CHR 0xF0, CHR 0x9F, CHR 0x93, CHR 0x8D] @ '' ''"

definition meta_sep :: string where
  "meta_sep =
     ''
                        ''"

definition topic_mark :: string where
  "topic_mark =
     [CHR 0xE2, CHR 0x80, CHR 0xA2] @ '' ''"

definition source_mark :: string where
  "source_mark =
     [CHR 0xE2, CHR 0x80, CHR 0xA2] @ '' Source: ''"

definition fact_close :: string where
  "fact_close =
     ''
                    </div>
                </div>
            ''"

definition notes_and_stamp :: string where
  "notes_and_stamp =
     ''

            <div class=\"notes-section\">
                <h2>My Notes</h2>
                <p>Add your personal notes and research findings below.</p>
                <textarea id=\"personal-notes\" placeholder=\"Type your notes here...\"></textarea>
                <button id=\"save-notes\">Save Notes</button>
            </div>
        </div>

        <div class=\"timestamp\">
            Generated: ''"

definition page_close :: string where
  "page_close =
     ''
        </div>
    </div>
</body>
</html>
        ''"

text \<open>The interpolated parts of the page.\<close>

definition img_html :: "string \<Rightarrow> gallery_item \<Rightarrow> string" where
  "img_html topic m =
     img_src @ gi_media_path m @ img_alt @ or_else (gi_title m) topic @ img_title
       @ or_else (gi_source m) [] @ img_end"

definition gallery_html :: "string \<Rightarrow> gallery_item list \<Rightarrow> string" where
  "gallery_html topic allMedia =
     (if length allMedia > 0
      then gallery_open @ concat (map (img_html topic) allMedia) @ gallery_close
      else [])"

definition fact_html :: "joined_fact \<Rightarrow> string" where
  "fact_html f =
     fact_open
     @ (if truthy (hf_image_url f)
        then fact_img_src @ the (hf_image_url f) @ fact_img_alt @ hf_title f @ fact_img_end
        else [])
     @ fact_title_open @ hf_title f @ '' ''
     @ (case hf_event_year f of
          None \<Rightarrow> []
        | Some y \<Rightarrow> if y \<noteq> 0 then ''('' @ showInt y @ '')'' else [])
     @ fact_content_open @ hf_content f @ fact_meta_open
     @ (if truthy (city_name f) then city_mark @ the (city_name f) else [])
     @ meta_sep
     @ (if truthy (topic_name f) then topic_mark @ the (topic_name f) else [])
     @ meta_sep
     @ (if truthy (hf_source_name f) then source_mark @ the (hf_source_name f) else [])
     @ fact_close"

definition page_html :: "string \<Rightarrow> gallery_item list \<Rightarrow> joined_fact list \<Rightarrow> string \<Rightarrow> string" where
  "page_html topic allMedia facts generated =
     page_open @ topic @ page_style @ topic @ page_hero_end
     @ gallery_html topic allMedia
     @ content_open @ concat (map fact_html facts)
     @ notes_and_stamp @ generated @ page_close"

text \<open>\<^verbatim>\<open>storePresentation\<close>: the insert rejects on an error; an error of the update of the
  flag is only logged.\<close>

definition storePresentation ::
  "env \<Rightarrow> world \<Rightarrow> int \<Rightarrow> string \<Rightarrow> string \<Rightarrow> string \<Rightarrow> (error + int) \<times> world" where
  "storePresentation e w topicId title content htmlPath =
     (let w1 = w\<lparr>db_calls := Suc (db_calls w)\<rparr>
      in if db_fails e (db_calls w) then (Inl SqliteError, w1)
         else
           (let presentationId = presentations_seq w + 1;
                w2 = w1\<lparr>presentations := presentations w @
                           [\<lparr>pr_id = presentationId, pr_topic_id = topicId, pr_title = title,
                             pr_content = Some content, pr_html_path = Some htmlPath,
                             pr_created_at = sql_now e (db_calls w)\<rparr>],
                         presentations_seq := presentationId\<rparr>;
                w3 = w2\<lparr>db_calls := Suc (db_calls w2)\<rparr>
            in if db_fails e (db_calls w2) then (Inr presentationId, w3)
               else (Inr presentationId,
                     w3\<lparr>topics_researched :=
                          map (\<lambda>t. if tr_id t = topicId then t\<lparr>tr_presentation_generated := 1\<rparr> else t)
                            (topics_researched w3)\<rparr>)))"

record presentation_result =
  pres_filepath :: string
  pres_filename :: string
  pres_fullPath :: string

definition generatePresentation ::
  "env \<Rightarrow> world \<Rightarrow> int \<Rightarrow> (error + presentation_result) \<times> world" where
  "generatePresentation e w topicId =
     (case getTopicData e w topicId of
        (Inl err, w1) \<Rightarrow> (Inl err, w1)
      | (Inr (None, media), w1) \<Rightarrow> (Inl (TopicNotFound topicId), w1)
      | (Inr (Some topic, media), w1) \<Rightarrow>
          (case getRelatedFacts e w1 (tr_topic topic) of
             (Inl err, w2) \<Rightarrow> (Inl err, w2)
           | (Inr facts, w2) \<Rightarrow>
               (let factImages = map fact_gallery_item (filter hasImage facts);
                    allMedia = map media_gallery_item media @ factImages;
                    html = page_html (tr_topic topic) allMedia facts
                             (locale_string e (clock_reads w2));
                    w3 = w2\<lparr>clock_reads := Suc (clock_reads w2)\<rparr>;
                    filename = replace_runs isWhiteSpace (toLowerCase (tr_topic topic)) @ ''-''
                                 @ showInt topicId @ ''.html'';
                    filepath = path_join (presentationsDir e) filename
                in case writeFileSync e w3 filepath html of
                     (Inl err, w4) \<Rightarrow> (Inl err, w4)
                   | (Inr u, w4) \<Rightarrow>
                       (case storePresentation e w4 topicId (tr_topic topic) html filepath of
                          (Inl err, w5) \<Rightarrow> (Inl err, w5)
                        | (Inr presentationId, w5) \<Rightarrow>
                            (Inr \<lparr>pres_filepath = ''/presentations/'' @ filename,
                                  pres_filename = filename,
                                  pres_fullPath = filepath\<rparr>, w5)))))"

section \<open>Research workflow: the orchestrator\<close>

record workflow_result =
  wf_topicId :: int
  wf_topic :: string
  wf_mediaCount :: nat
  wf_presentationUrl :: string
  wf_presentationPath :: string

text \<open>\<^verbatim>\<open>processUserQuery\<close>: \<^verbatim>\<open>if (!topic) return null\<close> holds for \<^verbatim>\<open>null\<close> and for the
  empty string.\<close>

definition processUserQuery ::
  "env \<Rightarrow> world \<Rightarrow> string \<Rightarrow> int option \<Rightarrow> (error + workflow_result option) \<times> world" where
  "processUserQuery e w userMessage existingTopicId =
     (let topic = extractTopic userMessage
      in if \<not> truthy topic then (Inr None, w)
         else
           (let keywords = extractKeywords userMessage
            in case researchAndCollect e w (the topic) keywords existingTopicId of
                 (Inl err, w1) \<Rightarrow> (Inl err, w1)
               | (Inr research, w1) \<Rightarrow>
                   (case generatePresentation e w1 (rr_topicId research) of
                      (Inl err, w2) \<Rightarrow> (Inl err, w2)
                    | (Inr presentation, w2) \<Rightarrow>
                        (Inr (Some \<lparr>wf_topicId = rr_topicId research,
                                    wf_topic = rr_topic research,
                                    wf_mediaCount = rr_mediaCount research,
                                    wf_presentationUrl = pres_filepath presentation,
                                    wf_presentationPath = pres_fullPath presentation\<rparr>), w2))))"


section \<open>Page consolidation agent\<close>

record hierarchy =
  h_displayName :: "string option"
  h_icon :: "string option"
  h_description :: "string option"
  h_subtopics :: "string list option"
  h_relatedTopics :: "string list option"

text \<open>The object literal of \<^verbatim>\<open>getTopicHierarchies\<close>, as its own keys and values.\<close>

definition topicHierarchies :: "(string \<times> hierarchy) list" where
  "topicHierarchies =
    [(''Oil & Energy'',
      \<lparr>h_displayName = Some ''Oil & Energy in Southeast Texas'',
       h_icon = Some [CHR 0xE2, CHR 0x9A, CHR 0xA1],
       h_description = Some ''The petroleum industry that transformed Southeast Texas from rural to industrial'',
       h_subtopics = Some [''Spindletop'', ''Oil drilling methods'', ''Refineries'',
                           ''Major oil companies''],
       h_relatedTopics = Some [''Port Arthur'', ''Beaumont'']\<rparr>),
     (''Lumber Industry'',
      \<lparr>h_displayName = Some ''Lumber Industry in Southeast Texas'',
       h_icon = Some [CHR 0xF0, CHR 0x9F, CHR 0x8C, CHR 0xB2],
       h_description = Some ''The sawmill and timber era that built the region from 1880-1930'',
       h_subtopics = Some [''Sawmills'', ''Logging techniques'', ''Major lumber companies'',
                           ''Forest management''],
       h_relatedTopics = Some [''Orange'', ''Vidor'']\<rparr>),
     (''Shipbuilding'',
      \<lparr>h_displayName = Some ''Shipbuilding in Southeast Texas'',
       h_icon = Some [CHR 0xF0, CHR 0x9F, CHR 0x9A, CHR 0xA2],
       h_description = Some ''Naval and commercial shipbuilding, especially during WWII'',
       h_subtopics = Some [''WWII shipyards'', ''Construction techniques'',
                           ''Major shipbuilding companies'', ''Types of vessels''],
       h_relatedTopics = Some [''Orange'', ''Port Arthur'']\<rparr>)]"

text \<open>The property names that every object literal inherits from \<^verbatim>\<open>Object.prototype\<close>.
  Their values are functions or objects: truthy, and without the properties of a
  hierarchy.\<close>

definition objectPrototypeKeys :: "string list" where
  "objectPrototypeKeys =
     [''constructor'', ''__proto__'', ''hasOwnProperty'', ''isPrototypeOf'',
      ''propertyIsEnumerable'', ''toLocaleString'', ''toString'', ''valueOf'',
      ''__defineGetter__'', ''__defineSetter__'', ''__lookupGetter__'', ''__lookupSetter__'']"

text \<open>\<^verbatim>\<open>this.getTopicHierarchies()[mainTopic]\<close>, when it is truthy.\<close>

definition lookupHierarchy :: "string \<Rightarrow> hierarchy option" where
  "lookupHierarchy mainTopic =
     (case map_of topicHierarchies mainTopic of
        Some h \<Rightarrow> Some h
      | None \<Rightarrow>
          (if mainTopic \<in> set objectPrototypeKeys
           then Some \<lparr>h_displayName = None, h_icon = None, h_description = None,
                      h_subtopics = None, h_relatedTopics = None\<rparr>
           else None))"

record joined_presentation = presentation_row +
  research_topic :: string
  research_keywords :: "string list"

record presentations_data =
  pd_mainTopic :: string
  pd_displayName :: "string option"
  pd_icon :: "string option"
  pd_description :: "string option"
  pd_presentations :: "joined_presentation list"
  pd_subtopics :: "string list option"

text \<open>\<^verbatim>\<open>xs || []\<close> on an array that may be \<^verbatim>\<open>undefined\<close>.\<close>

definition or_empty :: "'a list option \<Rightarrow> 'a list" where
  "or_empty v = (case v of None \<Rightarrow> [] | Some xs \<Rightarrow> xs)"

definition topicPatterns :: "string \<Rightarrow> hierarchy \<Rightarrow> string list" where
  "topicPatterns mainTopic h =
     map (\<lambda>t. ''%'' @ t @ ''%'')
       ([mainTopic] @ or_empty (h_relatedTopics h) @ or_empty (h_subtopics h))"

text \<open>The rows of \<^verbatim>\<open>presentations p JOIN topics_researched t ON p.topic_id = t.id\<close>.\<close>

definition joined_presentations :: "world \<Rightarrow> joined_presentation list" where
  "joined_presentations w =
     concat (map (\<lambda>p. map (\<lambda>t. presentation_row.extend p
                                  \<lparr>research_topic = tr_topic t,
                                   research_keywords = tr_keywords t\<rparr>)
                         (filter (\<lambda>t. tr_id t = pr_topic_id p) (topics_researched w)))
               (presentations w))"

text \<open>The query of \<^verbatim>\<open>findRelatedPresentations\<close>: one \<^verbatim>\<open>LIKE\<close> per pattern, joined by
  \<^verbatim>\<open>OR\<close>, and \<^verbatim>\<open>ORDER BY p.created_at DESC\<close> (text, compared character by character;
  rows that tie stay in table order).\<close>

definition presentations_query :: "world \<Rightarrow> string list \<Rightarrow> joined_presentation list" where
  "presentations_query w likePatterns =
     rev (sort_key pr_created_at
       (rev (filter (\<lambda>p. list_ex (lower_like (Some (research_topic p))) likePatterns)
               (joined_presentations w))))"

definition findRelatedPresentations ::
  "env \<Rightarrow> world \<Rightarrow> string \<Rightarrow> (error + presentations_data) \<times> world" where
  "findRelatedPresentations e w mainTopic =
     (case lookupHierarchy mainTopic of
        None \<Rightarrow>
          (Inr \<lparr>pd_mainTopic = mainTopic, pd_displayName = None, pd_icon = None,
                pd_description = None, pd_presentations = [], pd_subtopics = Some []\<rparr>, w)
      | Some h \<Rightarrow>
          (let w1 = w\<lparr>db_calls := Suc (db_calls w)\<rparr>
           in if db_fails e (db_calls w) then (Inl SqliteError, w1)
              else (Inr \<lparr>pd_mainTopic = mainTopic, pd_displayName = h_displayName h,
                         pd_icon = h_icon h, pd_description = h_description h,
                         pd_presentations = presentations_query w (topicPatterns mainTopic h),
                         pd_subtopics = h_subtopics h\<rparr>, w1)))"

text \<open>The shortest run of characters up to a place where the closing pattern matches;
  without \<open>dotAll\<close> the run may not hold a line terminator.\<close>

fun lazy_until :: "(string \<Rightarrow> bool) \<Rightarrow> bool \<Rightarrow> string \<Rightarrow> string option" where
  "lazy_until closes dotAll [] = (if closes [] then Some [] else None)"
| "lazy_until closes dotAll (c # cs) =
     (if closes (c # cs) then Some []
      else if \<not> dotAll \<and> isLineTerminator c then None
      else (case lazy_until closes dotAll cs of None \<Rightarrow> None | Some g \<Rightarrow> Some (c # g)))"

text \<open>\<^verbatim>\<open>html.match(/OPEN(.*?)CLOSE/)\<close>: the first group of the match at the leftmost
  position that has one. \<open>opens\<close> gives what follows a match of \<^verbatim>\<open>OPEN\<close> at the start of a
  text.\<close>

definition group_here ::
  "(string \<Rightarrow> string option) \<Rightarrow> (string \<Rightarrow> bool) \<Rightarrow> bool \<Rightarrow> string \<Rightarrow> string option" where
  "group_here opens closes dotAll s =
     (case opens s of None \<Rightarrow> None | Some rest \<Rightarrow> lazy_until closes dotAll rest)"

fun match_group ::
  "(string \<Rightarrow> string option) \<Rightarrow> (string \<Rightarrow> bool) \<Rightarrow> bool \<Rightarrow> string \<Rightarrow> string option" where
  "match_group opens closes dotAll [] = group_here opens closes dotAll []"
| "match_group opens closes dotAll (c # cs) =
     (case group_here opens closes dotAll (c # cs) of
        Some g \<Rightarrow> Some g
      | None \<Rightarrow> match_group opens closes dotAll cs)"

text \<open>A literal opening pattern, and \<^verbatim>\<open><h1[^>]*>\<close> with the flag \<^verbatim>\<open>i\<close>.\<close>

definition opens_literal :: "string \<Rightarrow> string \<Rightarrow> string option" where
  "opens_literal lit s = (if prefix lit s then Some (drop (length lit) s) else None)"

definition opens_h1 :: "string \<Rightarrow> string option" where
  "opens_h1 s =
     (if startsWith_ci ''<h1'' s
      then (case dropWhile (\<lambda>c. c \<noteq> CHR ''>'') (drop 3 s) of
              [] \<Rightarrow> None
            | c # rest \<Rightarrow> Some rest)
      else None)"

record sections =
  sec_title :: string
  sec_hero :: string
  sec_gallery :: string
  sec_content :: string

definition extractContentSections :: "string \<Rightarrow> sections" where
  "extractContentSections htmlContent =
     \<lparr>sec_title =
        (case match_group opens_h1 (startsWith_ci ''</h1>'') False htmlContent of
           Some g \<Rightarrow> g | None \<Rightarrow> ''Untitled''),
      sec_hero =
        (case match_group (opens_literal ''<div class=\"hero\">'') (prefix ''</div>'') True
                htmlContent of
           Some g \<Rightarrow> g | None \<Rightarrow> []),
      sec_gallery =
        (case match_group (opens_literal ''<div class=\"gallery\">'') (prefix ''</div>'') True
                htmlContent of
           Some g \<Rightarrow> g | None \<Rightarrow> []),
      sec_content =
        (case match_group (opens_literal ''<div class=\"content\">'')
                (prefix ''<div class=\"timestamp\">'') True htmlContent of
           Some g \<Rightarrow> g | None \<Rightarrow> [])\<rparr>"

text \<open>The text of the templates of \<^verbatim>\<open>createTabbedInterface\<close> and of
  \<^verbatim>\<open>generateConsolidatedPage\<close>, cut at their interpolations.\<close>

definition tab_content_open :: string where
  "tab_content_open =
     ''
                    <div class=\"tab-content\">
                        ''"

definition hero_section_open :: string where
  "hero_section_open =
     ''<div class=\"hero-section\">''"

definition section_close :: string where
  "section_close =
     ''</div>''"

definition tab_content_sep :: string where
  "tab_content_sep =
     ''
                        ''"

definition gallery_section_open :: string where
  "gallery_section_open =
     ''<div class=\"gallery-section\">''"

definition facts_section_open :: string where
  "facts_section_open =
     ''
                        <div class=\"facts-section\">''"

definition tab_content_close :: string where
  "tab_content_close =
     ''</div>
                    </div>
                ''"

definition tab_navigation_open :: string where
  "tab_navigation_open =
     ''
            <div class=\"tab-navigation\">
                ''"

definition tab_button_open :: string where
  "tab_button_open =
     ''
                    <button class=\"tab-button ''"

definition tab_button_data :: string where
  "tab_button_data =
     ''\" 
                            data-tab=\"''"

definition tab_button_label :: string where
  "tab_button_label =
     ''\">
                        ''"

definition tab_button_close :: string where
  "tab_button_close =
     ''
                    </button>
                ''"

definition tab_navigation_close :: string where
  "tab_navigation_close =
     ''
            </div>
        ''"

definition tab_contents_open :: string where
  "tab_contents_open =
     ''
            <div class=\"tab-contents\">
                ''"

definition tab_pane_open :: string where
  "tab_pane_open =
     ''
                    <div id=\"''"

definition tab_pane_class :: string where
  "tab_pane_class =
     ''\" class=\"tab-pane ''"

definition tab_pane_body :: string where
  "tab_pane_body =
     ''\">
                        ''"

definition tab_pane_close :: string where
  "tab_pane_close =
     ''
                    </div>
                ''"

definition tab_contents_close :: string where
  "tab_contents_close =
     ''
            </div>
        ''"

definition consolidated_open :: string where
  "consolidated_open =
     ''
                <div class=\"consolidated-page\">
                    <div class=\"page-header\">
                        <h1>''"

definition consolidated_title_close :: string where
  "consolidated_title_close =
     ''</h1>
                        <p>''"

definition consolidated_header_close :: string where
  "consolidated_header_close =
     ''</p>
                    </div>
                    
                    ''"

definition consolidated_sep :: string where
  "consolidated_sep =
     ''
                    ''"

definition consolidated_close :: string where
  "consolidated_close =
     ''
                </div>
            ''"

definition cpage_open :: string where
  "cpage_open =
     ''
<!DOCTYPE html>
<html lang=\"en\">
<head>
    <meta charset=\"UTF-8\">
    <meta name=\"viewport\" content=\"width=device-width, initial-scale=1.0\">
    <title>''"

definition cpage_style :: string where
  "cpage_style =
     '' - Southeast Texas History</title>
    <style>
        * { margin: 0; padding: 0; box-sizing: border-box; }
        body {
            font-family: -apple-system, BlinkMacSystemFont, 'Segoe UI', Roboto, sans-serif;
            background: linear-gradient(135deg, #1e3c72 0%, #2a5298 100%);
            color: #333;
            padding: 2rem;
            min-height: 100vh;
        }
        
        nav {
            background: rgba(255, 255, 255, 0.95);
            padding: 1rem 2rem;
            box-shadow: 0 2px 10px rgba(0,0,0,0.1);
            margin-bottom: 2rem;
            border-radius: 12px;
        }
        
        nav ul {
            list-style: none;
            display: flex;
            gap: 2rem;
            align-items: center;
        }
        
        nav a {
            text-decoration: none;
            color: #2a5298;
            font-weight: 600;
            transition: color 0.3s;
        }
        
        nav a:hover {
            color: #1e3c72;
        }
        
        nav .logo {
            font-size: 1.5rem;
            font-weight: 800;
            color: #1e3c72;
        }
        
        .consolidated-page {
            max-width: 1400px;
            margin: 0 auto;
            background: white;
            border-radius: 20px;
            overflow: hidden;
            box-shadow: 0 20px 60px rgba(0,0,0,0.3);
        }
        
        .page-header {
            background: linear-gradient(135deg, #1e3c72 0%, #2a5298 100%);
            color: white;
            padding: 3rem;
            text-align: center;
        }
        
        .page-header h1 {
            font-size: 2.5rem;
            margin-bottom: 1rem;
        }
        
        .page-header p {
            font-size: 1.2rem;
            opacity: 0.9;
            max-width: 800px;
            margin: 0 auto;
        }
        
        .tab-navigation {
            display: flex;
            background: #f8f9fa;
            border-bottom: 1px solid #e9ecef;
            overflow-x: auto;
        }
        
        .tab-button {
            padding: 1rem 2rem;
            background: transparent;
            border: none;
            cursor: pointer;
            font-weight: 600;
            color: #666;
            border-bottom: 3px solid transparent;
            transition: all 0.3s;
            white-space: nowrap;
        }
        
        .tab-button:hover {
            background: #e9ecef;
            color: #2a5298;
        }
        
        .tab-button.active {
            color: #2a5298;
            border-bottom: 3px solid #2a5298;
        }
        
        .tab-contents {
            padding: 2rem;
        }
        
        .tab-pane {
            display: none;
        }
        
        .tab-pane.active {
            display: block;
        }
        
        .hero-section {
            margin-bottom: 2rem;
        }
        
        .gallery-section {
            margin: 2rem 0;
        }
        
        .gallery-section img {
            width: 100%;
            height: 300px;
            object-fit: cover;
            border-radius: 12px;
            margin-bottom: 1rem;
        }
        
        .facts-section {
            margin-top: 2rem;
        }
        
        .fact {
            background: #f8f9fa;
            padding: 2rem;
            margin: 2rem 0;
            border-radius: 12px;
            border-left: 4px solid #2a5298;
        }
        
        .fact h3 {
            color: #1e3c72;
            margin-bottom: 1rem;
        }
        
        .fact-meta {
            color: #666;
            font-size: 0.9rem;
            margin-top: 1rem;
        }
        
        .timestamp {
            text-align: center;
            padding: 2rem;
            color: #999;
            font-size: 0.9rem;
            border-top: 1px solid #eee;
            margin-top: 2rem;
        }
        
        @media (max-width: 768px) {
            .tab-navigation {
                flex-direction: column;
            }
            
            .tab-button {
                text-align: left;
                border-bottom: 1px solid #e9ecef;
                border-right: 3px solid transparent;
            }
            
            .tab-button.active {
                border-bottom: 1px solid #e9ecef;
                border-right: 3px solid #2a5298;
            }
        }
    </style>
</head>
<body>
    <!-- Navigation -->
    <nav>
        <ul>
            <li><span class=\"logo\">'' @ [CHR 0xF0, CHR 0x9F, CHR 0x8F, CHR 0x9B] @ [CHR 0xEF, CHR 0xB8, CHR 0x8F] @ '' SETX History</span></li>
            <li><a href=\"/\">History Chat</a></li>
            <li><a href=\"/contribute.html\">'' @ [CHR 0xF0, CHR 0x9F, CHR 0xA4, CHR 0x9D] @ '' Contribute</a></li>
        </ul>
    </nav>
    
    ''"

definition cpage_stamp :: string where
  "cpage_stamp =
     ''
    
    <div class=\"timestamp\">
        Consolidated Page Generated: ''"

definition cpage_count :: string where
  "cpage_count =
     ''<br>
        Contains ''"

definition cpage_close :: string where
  "cpage_close =
     '' related research presentations
    </div>
    
    <script>
        // Tab switching functionality
        document.querySelectorAll('.tab-button').forEach(button => {
            button.addEventListener('click', () => {
                // Remove active class from all buttons and panes
                document.querySelectorAll('.tab-button').forEach(btn => btn.classList.remove('active'));
                document.querySelectorAll('.tab-pane').forEach(pane => pane.classList.remove('active'));
                
                // Add active class to clicked button
                button.classList.add('active');
                
                // Show corresponding tab pane
                const tabId = button.getAttribute('data-tab');
                document.getElementById(tabId).classList.add('active');
            });
        });
    </script>
</body>
</html>
        ''"

text \<open>String interpolation of a value that may be \<^verbatim>\<open>undefined\<close>.\<close>

definition interpolate :: "string option \<Rightarrow> string" where
  "interpolate v = (case v of None \<Rightarrow> ''undefined'' | Some s \<Rightarrow> s)"

definition isAlnum :: "char \<Rightarrow> bool" where
  "isAlnum c \<longleftrightarrow>
     (let n = (of_char c :: nat)
      in (97 \<le> n \<and> n \<le> 122) \<or> (65 \<le> n \<and> n \<le> 90) \<or> (48 \<le> n \<and> n \<le> 57))"

record tab =
  tab_id :: string
  tab_label :: string
  tab_content :: string

text \<open>The tab of the presentation at position \<open>index\<close>.\<close>

definition make_tab :: "nat \<Rightarrow> joined_presentation \<Rightarrow> tab" where
  "make_tab index pres =
     (let content = extractContentSections (or_else (pr_content pres) [])
      in \<lparr>tab_id = ''tab-'' @ showNat index,
          tab_label = take 30 (dropWhile (\<lambda>c. \<not> isAlnum c) (sec_title content)),
          tab_content =
            tab_content_open
            @ (if sec_hero content \<noteq> []
               then hero_section_open @ sec_hero content @ section_close else [])
            @ tab_content_sep
            @ (if sec_gallery content \<noteq> []
               then gallery_section_open @ sec_gallery content @ section_close else [])
            @ facts_section_open @ sec_content content @ tab_content_close\<rparr>)"

definition tab_button :: "nat \<Rightarrow> tab \<Rightarrow> string" where
  "tab_button index t =
     tab_button_open @ (if index = 0 then ''active'' else []) @ tab_button_data @ tab_id t
       @ tab_button_label @ tab_label t @ tab_button_close"

definition tab_pane :: "nat \<Rightarrow> tab \<Rightarrow> string" where
  "tab_pane index t =
     tab_pane_open @ tab_id t @ tab_pane_class @ (if index = 0 then ''active'' else [])
       @ tab_pane_body @ tab_content t @ tab_pane_close"

definition createTabbedInterface :: "presentations_data \<Rightarrow> string option" where
  "createTabbedInterface pd =
     (if length (pd_presentations pd) = 0 then None
      else
        (let tabs = map (\<lambda>(index, pres). make_tab index pres)
                      (enumerate 0 (pd_presentations pd));
             tabNavigation = tab_navigation_open
                               @ concat (map (\<lambda>(index, t). tab_button index t) (enumerate 0 tabs))
                               @ tab_navigation_close;
             tabContents = tab_contents_open
                             @ concat (map (\<lambda>(index, t). tab_pane index t) (enumerate 0 tabs))
                             @ tab_contents_close
         in Some (consolidated_open @ interpolate (pd_icon pd) @ '' ''
                    @ interpolate (pd_displayName pd) @ consolidated_title_close
                    @ interpolate (pd_description pd) @ consolidated_header_close
                    @ tabNavigation @ consolidated_sep @ tabContents @ consolidated_close)))"

definition generateConsolidatedPage ::
  "env \<Rightarrow> world \<Rightarrow> presentations_data \<Rightarrow> string option \<times> world" where
  "generateConsolidatedPage e w pd =
     (case createTabbedInterface pd of
        None \<Rightarrow> (None, w)
      | Some tabbedInterface \<Rightarrow>
          (Some (cpage_open @ interpolate (pd_displayName pd) @ cpage_style @ tabbedInterface
                   @ cpage_stamp @ locale_string e (clock_reads w) @ cpage_count
                   @ showNat (length (pd_presentations pd)) @ cpage_close),
           w\<lparr>clock_reads := Suc (clock_reads w)\<rparr>))"

record saved_file =
  sf_filename :: string
  sf_filepath :: string
  sf_url :: string

text \<open>\<^verbatim>\<open>saveConsolidatedPage\<close>: a failed write is caught and gives \<^verbatim>\<open>null\<close>.\<close>

definition saveConsolidatedPage ::
  "env \<Rightarrow> world \<Rightarrow> string \<Rightarrow> string \<Rightarrow> saved_file option \<times> world" where
  "saveConsolidatedPage e w mainTopic htmlContent =
     (let filename = replace_runs isWhiteSpace (toLowerCase mainTopic) @ ''-consolidated-''
                       @ showNat (date_now e (clock_reads w)) @ ''.html'';
          w1 = w\<lparr>clock_reads := Suc (clock_reads w)\<rparr>;
          filepath = path_join (presentationsDir e) filename
      in case writeFileSync e w1 filepath htmlContent of
           (Inl err, w2) \<Rightarrow> (None, w2)
         | (Inr u, w2) \<Rightarrow>
             (Some \<lparr>sf_filename = filename, sf_filepath = filepath,
                    sf_url = ''/presentations/'' @ filename\<rparr>, w2))"

text \<open>\<^verbatim>\<open>storeConsolidatedPage\<close>: the column \<^verbatim>\<open>display_name\<close> is \<^verbatim>\<open>NOT NULL\<close>, so an
  undefined display name makes the insert fail.\<close>

definition storeConsolidatedPage ::
  "env \<Rightarrow> world \<Rightarrow> string \<Rightarrow> string option \<Rightarrow> string \<Rightarrow> (error + int) \<times> world" where
  "storeConsolidatedPage e w mainTopic displayName htmlPath =
     (let w1 = w\<lparr>db_calls := Suc (db_calls w)\<rparr>
      in case displayName of
           None \<Rightarrow> (Inl SqliteError, w1)
         | Some name \<Rightarrow>
             (if db_fails e (db_calls w) then (Inl SqliteError, w1)
              else
                (let lastID = consolidated_pages_seq w + 1
                 in (Inr lastID,
                     w1\<lparr>consolidated_pages := consolidated_pages w @
                           [\<lparr>cp_id = lastID, cp_main_topic = mainTopic, cp_display_name = name,
                             cp_html_path = htmlPath, cp_created_at = sql_now e (db_calls w)\<rparr>],
                         consolidated_pages_seq := lastID\<rparr>))))"

text \<open>The body of the \<^verbatim>\<open>try\<close> block of \<^verbatim>\<open>consolidateTopicCategory\<close>: an error of the
  search leaves the block; an error of the insert is caught inside and only logged.\<close>

definition consolidate_try ::
  "env \<Rightarrow> world \<Rightarrow> string \<Rightarrow> (error + saved_file option) \<times> world" where
  "consolidate_try e w mainTopic =
     (case findRelatedPresentations e w mainTopic of
        (Inl err, w1) \<Rightarrow> (Inl err, w1)
      | (Inr presentationsData, w1) \<Rightarrow>
          (if length (pd_presentations presentationsData) = 0 then (Inr None, w1)
           else
             (case generateConsolidatedPage e w1 presentationsData of
                (None, w2) \<Rightarrow> (Inr None, w2)
              | (Some htmlContent, w2) \<Rightarrow>
                  (if htmlContent = [] then (Inr None, w2)
                   else
                     (case saveConsolidatedPage e w2 mainTopic htmlContent of
                        (None, w3) \<Rightarrow> (Inr None, w3)
                      | (Some savedFile, w3) \<Rightarrow>
                          (case storeConsolidatedPage e w3 mainTopic
                                  (pd_displayName presentationsData) (sf_filepath savedFile) of
                             (Inl dbError, w4) \<Rightarrow> (Inr (Some savedFile), w4)
                           | (Inr lastID, w4) \<Rightarrow> (Inr (Some savedFile), w4)))))))"

text \<open>\<^verbatim>\<open>consolidateTopicCategory\<close>: the \<^verbatim>\<open>catch\<close> turns every error of the block into
  \<^verbatim>\<open>null\<close>.\<close>

definition consolidateTopicCategory ::
  "env \<Rightarrow> world \<Rightarrow> string \<Rightarrow> (error + saved_file option) \<times> world" where
  "consolidateTopicCategory e w mainTopic =
     (case consolidate_try e w mainTopic of
        (Inl err, w1) \<Rightarrow> (Inr None, w1)
      | (Inr result, w1) \<Rightarrow> (Inr result, w1))"


section \<open>Sample worlds and environments\<close>

definition world0 :: world where
  "world0 =
     \<lparr>http_calls = 0, fs_calls = 0, db_calls = 0, clock_reads = 0, files = (\<lambda>p. None),
      topics_researched = [], topics_researched_seq = 0,
      topic_media = [], topic_media_seq = 0,
      presentations = [], presentations_seq = 0,
      consolidated_pages = [], consolidated_pages_seq = 0,
      historical_topics = [], historical_cities = [], historical_facts = []\<rparr>"

text \<open>An environment with no network: every request fails; the disk and the database work.\<close>

definition env_offline :: env where
  "env_offline =
     \<lparr>search_reply = (\<lambda>n url. Failed Unreachable),
      download_reply = (\<lambda>n url. Failed Unreachable),
      fs_fails = (\<lambda>n. False), db_fails = (\<lambda>n. False),
      date_now = (\<lambda>n. 1700000000000 + n), locale_string = (\<lambda>n. ''1/1/2024, 12:00:00 PM''),
      sql_now = (\<lambda>n. ''2024-01-01 12:00:00''), dirname = ''/srv/setx''\<rparr>"

definition photo :: "string \<Rightarrow> string \<Rightarrow> loc_item" where
  "photo t u =
     \<lparr>item_title = Some t, item_image = Some \<lparr>img_full = Some u\<rparr>, item_resources = None,
      item_reproduction_number = None\<rparr>"

definition recording :: "string \<Rightarrow> string \<Rightarrow> string \<Rightarrow> loc_item" where
  "recording t u mime =
     \<lparr>item_title = Some t, item_image = None,
      item_resources = Some [\<lparr>res_url = Some u, res_mime_type = Some mime\<rparr>],
      item_reproduction_number = None\<rparr>"

text \<open>An archive with three photographs (the second without a full image), two sound
  recordings and no answer for films. The download numbered 4, the second one of a first
  batch that follows the three searches, is answered with status 404.\<close>

definition env_archive :: env where
  "env_archive =
     env_offline
       \<lparr>search_reply := (\<lambda>n url.
           if prefix ''https://www.loc.gov/pictures/'' url
           then Reply 200 (Some [photo ''Gusher'' ''http://loc/1.jpg'',
                                 (photo ''Derrick'' [])\<lparr>item_title := None\<rparr>,
                                 photo ''Oil Field'' ''http://loc/3.jpg''])
           else if prefix ''https://www.loc.gov/audio/'' url
           then Reply 200 (Some [recording ''Interview'' ''http://loc/a.MP3'' ''text/html'',
                                 recording ''Song'' ''http://loc/b'' ''audio/mpeg''])
           else Failed TimedOut),
        download_reply := (\<lambda>n url. if n = 4 then Reply 404 ''not found'' else Reply 200 ''data'')\<rparr>"









text \<open>A database with one researched topic and its stored presentation.\<close>

definition world_with :: "string \<Rightarrow> world" where
  "world_with topic =
     world0\<lparr>topics_researched :=
              [\<lparr>tr_id = 1, tr_topic = topic, tr_keywords = [], tr_user_id = ''default'',
                tr_researched_at = ''2024-01-01 12:00:00'', tr_presentation_generated = 1\<rparr>],
            topics_researched_seq := 1,
            presentations :=
              [\<lparr>pr_id = 1, pr_topic_id = 1, pr_title = topic,
                pr_content = Some (''<h1>'' @ topic @ ''</h1>''),
                pr_html_path = Some ''/srv/setx/public/presentations/p-1.html'',
                pr_created_at = ''2024-01-01 12:00:01''\<rparr>],
            presentations_seq := 1\<rparr>"

text \<open>An environment whose database rejects the second statement.\<close>

definition env_insert_fails :: env where
  "env_insert_fails = env_offline\<lparr>db_fails := (\<lambda>n. n = 1)\<rparr>"


section \<open>Notions of the specification\<close>

text \<open>Keyword extraction in the words of the specification: lower-case, split on white
  space, discard stop-words and tokens of length at most 3, keep the first five.\<close>

definition extractKeywords_spec :: "string \<Rightarrow> string list" where
  "extractKeywords_spec message =
     take 5 (filter (\<lambda>w. \<not> length w \<le> 3 \<and> w \<notin> set commonWords)
               (splitWhitespace (toLowerCase message)))"

text \<open>The message contains the literal, compared without regard to ASCII case.\<close>

definition contains_ci :: "string \<Rightarrow> string \<Rightarrow> bool" where
  "contains_ci s message = list_ex (startsWith_ci s) (suffixes message)"

text \<open>A question template applies to the message: somewhere one of its heads occurs, and
  no line terminator stands between the head and the next question mark (or the end).\<close>

definition template_applies :: "string list \<Rightarrow> string \<Rightarrow> bool" where
  "template_applies heads message =
     list_ex (\<lambda>t. list_ex (\<lambda>p. startsWith_ci p t \<and>
                 \<not> list_ex isLineTerminator
                      (takeWhile (\<lambda>c. c \<noteq> CHR ''?'') (drop (length p) t)))
               heads)
       (suffixes message)"


text \<open>The results a search reply delivers: those of a reply with a status from 200 to 299
  whose body has a \<^verbatim>\<open>results\<close> array, and none otherwise.\<close>

definition results_of :: "search_data http_reply \<Rightarrow> loc_item list" where
  "results_of r =
     (case r of
        Failed f \<Rightarrow> []
      | Reply status data \<Rightarrow>
          (if 200 \<le> status \<and> status < 300 then (case data of None \<Rightarrow> [] | Some rs \<Rightarrow> rs)
           else []))"

text \<open>What one image result and one audio or video result contribute to the list.\<close>

definition image_entry :: "string \<Rightarrow> loc_item \<Rightarrow> media_item list" where
  "image_entry query item =
     (case item_image item of
        None \<Rightarrow> []
      | Some img \<Rightarrow>
          (if truthy (img_full img)
           then [\<lparr>mi_title = or_else (item_title item) query, mi_url = the (img_full img),
                  mi_source = ''Library of Congress - Images'', mi_type = Image,
                  mi_reproduction_number = item_reproduction_number item\<rparr>]
           else []))"

definition resource_entry ::
  "string list \<Rightarrow> string list \<Rightarrow> string \<Rightarrow> media_type \<Rightarrow> string \<Rightarrow> loc_item \<Rightarrow> media_item list" where
  "resource_entry mimeWords exts label ty query item =
     (case item_resources item of
        None \<Rightarrow> []
      | Some resources \<Rightarrow>
          (case chooseResource mimeWords exts resources of
             None \<Rightarrow> []
           | Some url \<Rightarrow>
               [\<lparr>mi_title = or_else (item_title item) query, mi_url = url, mi_source = label,
                 mi_type = ty, mi_reproduction_number = item_reproduction_number item\<rparr>]))"



text \<open>The items of a batch whose outcome is success, in their order.\<close>

definition kept :: "'a list \<Rightarrow> bool list \<Rightarrow> 'a list" where
  "kept xs bs = map fst (filter snd (zip xs bs))"






text \<open>The literal occurs in a column that may be \<^verbatim>\<open>NULL\<close>, compared without regard to
  ASCII case.\<close>

definition column_contains_ci :: "string \<Rightarrow> string option \<Rightarrow> bool" where
  "column_contains_ci s column = (case column of None \<Rightarrow> False | Some t \<Rightarrow> contains_ci s t)"



text \<open>The terms of a category: its name, its related topics and its subtopics.\<close>

definition terms_of :: "string \<Rightarrow> hierarchy \<Rightarrow> string list" where
  "terms_of mainTopic h = [mainTopic] @ or_empty (h_relatedTopics h) @ or_empty (h_subtopics h)"

text \<open>The stored presentations whose researched topic contains one of the terms as a
  substring, without regard to case.\<close>

definition matching_presentations :: "world \<Rightarrow> string list \<Rightarrow> joined_presentation list" where
  "matching_presentations w terms =
     filter (\<lambda>p. list_ex (\<lambda>t. contains_ci t (research_topic p)) terms) (joined_presentations w)"

text \<open>Disk and tables of two worlds are the same.\<close>

definition same_data :: "world \<Rightarrow> world \<Rightarrow> bool" where
  "same_data w w' \<longleftrightarrow>
     files w' = files w \<and> fs_calls w' = fs_calls w \<and>
     topics_researched w' = topics_researched w \<and> topic_media w' = topic_media w \<and>
     presentations w' = presentations w \<and> consolidated_pages w' = consolidated_pages w \<and>
     consolidated_pages_seq w' = consolidated_pages_seq w \<and>
     historical_topics w' = historical_topics w \<and> historical_cities w' = historical_cities w \<and>
     historical_facts w' = historical_facts w"


section \<open>Facts about strings and patterns\<close>

lemma isWhiteSpace_asciiLower: "isWhiteSpace (asciiLower c) = isWhiteSpace c"
  by (cases c) (simp add: isWhiteSpace_def asciiLower_def setBit5_def Let_def)

lemma trim_id:
  assumes "s \<noteq> []" "\<not> isWhiteSpace (hd s)" "\<not> isWhiteSpace (last s)"
  shows "trim s = s"
proof -
  from assms have a: "dropWhile isWhiteSpace s = s"
    by (cases s) auto
  from assms have "rev s \<noteq> []" "\<not> isWhiteSpace (hd (rev s))"
    by (auto simp: hd_rev)
  then have "dropWhile isWhiteSpace (rev s) = rev s"
    by (cases "rev s") auto
  with a show ?thesis by (simp add: trim_def)
qed

lemma trim_id_lowered:
  assumes "map asciiLower t = s" "s \<noteq> []" "\<not> isWhiteSpace (hd s)" "\<not> isWhiteSpace (last s)"
  shows "trim t = t"
proof -
  from assms have ne: "t \<noteq> []" by auto
  from assms ne have "\<not> isWhiteSpace (hd t)"
    by (metis hd_map isWhiteSpace_asciiLower)
  moreover from assms ne have "\<not> isWhiteSpace (last t)"
    by (metis last_map isWhiteSpace_asciiLower)
  ultimately show ?thesis using ne by (rule_tac trim_id)
qed

lemma startsWith_ci_take:
  "startsWith_ci a s \<Longrightarrow> map asciiLower (take (length a) s) = map asciiLower a"
  by (induction a s rule: startsWith_ci.induct) (auto split: if_splits)

lemma extractKeywords_loop_eq:
  "extractKeywords_loop acc ws =
     acc @ map replace_first_punct (filter (\<lambda>w. length w > 3 \<and> w \<notin> set commonWords) ws)"
  by (induction ws arbitrary: acc) auto

lemma lazy_capture_None:
  "lazy_capture r = None \<longleftrightarrow> list_ex isLineTerminator (takeWhile (\<lambda>c. c \<noteq> CHR ''?'') r)"
  by (induction r) (auto split: option.splits)

lemma match_subject_None:
  "match_subject as s = None \<longleftrightarrow> \<not> list_ex (\<lambda>a. startsWith_ci a s) as"
  by (induction as) auto

lemma match_subject_Some:
  "match_subject as s = Some (m0, m1) \<Longrightarrow>
     m0 = m1 \<and> (\<exists>a \<in> set as. startsWith_ci a s \<and> m1 = take (length a) s)"
  by (induction as) (auto split: if_splits)

lemma match_question_None:
  "match_question as s = None \<longleftrightarrow>
     \<not> list_ex (\<lambda>p. startsWith_ci p s \<and>
          \<not> list_ex isLineTerminator (takeWhile (\<lambda>c. c \<noteq> CHR ''?'') (drop (length p) s))) as"
  by (induction as) (auto simp: lazy_capture_None [symmetric] split: option.splits)

lemma regex_match_None:
  "regex_match p s = None \<longleftrightarrow> \<not> list_ex (\<lambda>t. match_here p t \<noteq> None) (suffixes s)"
proof (induction s)
  case Nil
  show ?case by (cases "match_here p []") auto
next
  case (Cons c cs)
  then show ?case by (auto split: option.splits)
qed

lemma regex_match_Some:
  "regex_match p s = Some m \<Longrightarrow> \<exists>t \<in> set (suffixes s). match_here p t = Some m"
  by (induction s) (auto split: option.splits)

lemma regex_match_Subject_None:
  "regex_match (Subject as) message = None \<longleftrightarrow> \<not> list_ex (\<lambda>a. contains_ci a message) as"
  by (auto simp: regex_match_None match_subject_None contains_ci_def list_ex_iff)

lemma regex_match_Question_None:
  "regex_match (Question heads) message = None \<longleftrightarrow> \<not> template_applies heads message"
  by (simp add: regex_match_None match_question_None template_applies_def)

lemma extractTopic_loop_first:
  "i < length ps \<Longrightarrow> \<forall>j<i. regex_match (ps ! j) message = None \<Longrightarrow>
   regex_match (ps ! i) message = Some (m0, m1) \<Longrightarrow>
   extractTopic_loop ps message = Some (if m1 \<noteq> [] then trim m1 else trim m0)"
proof (induction ps arbitrary: i)
  case Nil
  then show ?case by simp
next
  case (Cons p ps)
  show ?case
  proof (cases i)
    case 0
    with Cons.prems show ?thesis by simp
  next
    case (Suc k)
    with Cons.prems have "regex_match p message = None" by auto
    moreover from Suc Cons.prems have "k < length ps"
      "\<forall>j<k. regex_match (ps ! j) message = None" "regex_match (ps ! k) message = Some (m0, m1)"
      by auto
    ultimately show ?thesis using Cons.IH [of k] by simp
  qed
qed

lemma extractTopic_loop_none:
  "\<forall>i<length ps. regex_match (ps ! i) message = None \<Longrightarrow> extractTopic_loop ps message = None"
proof (induction ps)
  case Nil
  then show ?case by simp
next
  case (Cons p ps)
  from Cons.prems have "regex_match p message = None" by auto
  moreover from Cons.prems have "\<forall>i<length ps. regex_match (ps ! i) message = None" by auto
  ultimately show ?case using Cons.IH by simp
qed

lemma subjects_no_outer_space:
  "s \<in> set subjects \<Longrightarrow> s \<noteq> [] \<and> \<not> isWhiteSpace (hd s) \<and> \<not> isWhiteSpace (last s)"
  by (auto simp: subjects_def isWhiteSpace_def)

lemma subject_found:
  assumes "list_ex (\<lambda>s. contains_ci s message) subjects"
  shows "\<exists>t. extractTopic message = Some t \<and> map asciiLower t \<in> set subjects
           \<and> sublist t message"
proof -
  from assms have "regex_match (Subject subjects) message \<noteq> None"
    by (simp add: regex_match_Subject_None)
  then obtain m0 m1 where m: "regex_match (Subject subjects) message = Some (m0, m1)"
    by auto
  then obtain suf where suf: "suf \<in> set (suffixes message)"
    "match_subject subjects suf = Some (m0, m1)"
    by (auto dest: regex_match_Some)
  then obtain a where a: "a \<in> set subjects" "startsWith_ci a suf" "m1 = take (length a) suf"
    by (auto dest: match_subject_Some)
  have low: "map asciiLower m1 = map asciiLower a"
    using a by (simp add: startsWith_ci_take)
  have alow: "map asciiLower a = a"
    using a(1) by (auto simp: subjects_def asciiLower_def)
  have ne: "m1 \<noteq> []" using low a(1) subjects_no_outer_space by force
  have tr: "trim m1 = m1"
    using low alow a(1) subjects_no_outer_space trim_id_lowered by metis
  have "sublist m1 message"
  proof -
    from suf(1) have "suffix suf message" by (simp add: in_set_suffixes)
    then obtain pre where "message = pre @ suf" by (auto simp: suffix_def)
    moreover have "suf = m1 @ drop (length a) suf" using a(3) by simp
    ultimately have "message = pre @ m1 @ drop (length a) suf" by simp
    then show ?thesis unfolding sublist_def by blast
  qed
  moreover have "extractTopic message = Some m1"
    using m ne tr by (simp add: extractTopic_def patterns_def)
  ultimately show ?thesis using low alow a(1) by auto
qed


section \<open>Topic and keyword extraction: the claims\<close>

text \<open>
  Claim C5. As stated, keyword extraction returns the first five surviving tokens
  themselves. The code also removes from each surviving token its first character among
  \<^verbatim>\<open>? ! . ,\<close> (after the stop-word and length tests), so the statement fails on any
  message with such a token; the example of the claim holds.
\<close>

theorem extractKeywords_spec_counterexample:
  "extractKeywords ''What is Spindletop?'' = [''spindletop''] \<and>
   extractKeywords_spec ''What is Spindletop?'' = [''spindletop?'']"
  by (simp add: extractKeywords_def extractKeywords_spec_def toLowerCase_def
      toLowerCase_char_def setBit5_def isWhiteSpace_def commonWords_def)

text \<open>
  Claim C5, amended. \<^const>\<open>extractKeywords\<close> lower-cases the message, splits it on white
  space, discards the stop-words and the tokens of length at most 3, removes from each
  surviving token its first character among \<^verbatim>\<open>? ! . ,\<close>, and returns the first five
  results in their original order. On the message of the claim the result is
  \<^verbatim>\<open>spindletop, discovery, 1901\<close>: without \<^verbatim>\<open>tell\<close>, \<^verbatim>\<open>about\<close>, \<^verbatim>\<open>the\<close>, with
  \<^verbatim>\<open>spindletop\<close> and \<^verbatim>\<open>discovery\<close>, at most five entries.
\<close>

theorem extractKeywords_pipeline:
  "extractKeywords message =
     take 5 (map replace_first_punct
       (filter (\<lambda>w. length w > 3 \<and> w \<notin> set commonWords)
          (splitWhitespace (toLowerCase message))))
   \<and> length (extractKeywords message) \<le> 5
   \<and> extractKeywords ''Tell me about the Spindletop oil discovery in 1901''
        = [''spindletop'', ''discovery'', ''1901'']"
proof -
  have "extractKeywords ''Tell me about the Spindletop oil discovery in 1901''
        = [''spindletop'', ''discovery'', ''1901'']"
    by (simp add: extractKeywords_def toLowerCase_def toLowerCase_char_def setBit5_def
        isWhiteSpace_def commonWords_def)
  then show ?thesis
    by (simp add: extractKeywords_def extractKeywords_loop_eq)
qed

theorem extractKeywords_pipeline_witness:
  "extractKeywords ''How did the lumber mills, and the sawmills... grow?''
     = [''lumber'', ''mills'', ''sawmills..'', ''grow'']"
  using extractKeywords_pipeline [of "''How did the lumber mills, and the sawmills... grow?''"]
  by (simp add: toLowerCase_def toLowerCase_char_def setBit5_def
      isWhiteSpace_def commonWords_def)

text \<open>
  Claim C3. As stated, the result is the first capture group of the first pattern that
  matches. The code returns \<^verbatim>\<open>match[1].trim()\<close> only when that group is not empty, and
  \<^verbatim>\<open>match[0].trim()\<close>, the whole match, otherwise: on \<^verbatim>\<open>what is ?\<close> the first pattern
  that matches is the third, its first group is empty, and the result is the whole match.
\<close>

theorem extractTopic_empty_group_counterexample:
  "regex_match (patterns ! 0) ''what is ?'' = None \<and>
   regex_match (patterns ! 1) ''what is ?'' = None \<and>
   regex_match (patterns ! 2) ''what is ?'' = Some (''what is ?'', []) \<and>
   extractTopic ''what is ?'' = Some ''what is ?''"
  by (simp add: extractTopic_def patterns_def subjects_def asciiLower_def setBit5_def
      isWhiteSpace_def isLineTerminator_def trim_def)

text \<open>
  Claim C3, amended. For every message that contains one of the fixed subjects (compared
  without regard to case), \<^const>\<open>extractTopic\<close> returns an occurrence of a fixed subject
  in the message, as the message writes it. In general the patterns are tried in order, and
  the result comes from the first pattern that matches: its first capture group with the
  surrounding white space removed or, when that group is empty, the whole match with the
  surrounding white space removed. When no pattern matches the result is nothing.
\<close>

theorem extractTopic_first_match:
  "(list_ex (\<lambda>s. contains_ci s message) subjects \<longrightarrow>
      (\<exists>t. extractTopic message = Some t \<and> map asciiLower t \<in> set subjects
           \<and> sublist t message))
   \<and> (\<forall>i m0 m1. i < length patterns
         \<and> (\<forall>j<i. regex_match (patterns ! j) message = None)
         \<and> regex_match (patterns ! i) message = Some (m0, m1)
       \<longrightarrow> extractTopic message = Some (if m1 \<noteq> [] then trim m1 else trim m0))
   \<and> ((\<forall>i<length patterns. regex_match (patterns ! i) message = None)
       \<longrightarrow> extractTopic message = None)"
proof (intro conjI impI allI)
  assume "list_ex (\<lambda>s. contains_ci s message) subjects"
  from subject_found [OF this]
  show "\<exists>t. extractTopic message = Some t \<and> map asciiLower t \<in> set subjects
           \<and> sublist t message"
    by auto
next
  fix i m0 m1
  assume "i < length patterns
         \<and> (\<forall>j<i. regex_match (patterns ! j) message = None)
         \<and> regex_match (patterns ! i) message = Some (m0, m1)"
  then show "extractTopic message = Some (if m1 \<noteq> [] then trim m1 else trim m0)"
    unfolding extractTopic_def using extractTopic_loop_first by blast
next
  assume "\<forall>i<length patterns. regex_match (patterns ! i) message = None"
  then show "extractTopic message = None"
    unfolding extractTopic_def by (rule extractTopic_loop_none)
qed

theorem extractTopic_first_match_witness:
  "list_ex (\<lambda>s. contains_ci s ''Why was SpindleTop famous?'') subjects
   \<and> (\<exists>t. extractTopic ''Why was SpindleTop famous?'' = Some t
          \<and> map asciiLower t \<in> set subjects \<and> sublist t ''Why was SpindleTop famous?'')
   \<and> regex_match (patterns ! 0) ''how did  the boom end ? '' = None
   \<and> regex_match (patterns ! 3) ''how did  the boom end ? ''
         = Some (''how did  the boom end ?'', '' the boom end '')
   \<and> extractTopic ''how did  the boom end ? '' = Some (trim '' the boom end '')
   \<and> extractTopic ''Good morning'' = None"
proof -
  have h1: "list_ex (\<lambda>s. contains_ci s ''Why was SpindleTop famous?'') subjects"
    by (simp add: subjects_def contains_ci_def asciiLower_def setBit5_def)
  have h2: "regex_match (patterns ! 0) ''how did  the boom end ? '' = None"
    "regex_match (patterns ! 1) ''how did  the boom end ? '' = None"
    "regex_match (patterns ! 2) ''how did  the boom end ? '' = None"
    "regex_match (patterns ! 3) ''how did  the boom end ? ''
         = Some (''how did  the boom end ?'', '' the boom end '')"
    by (simp_all add: patterns_def subjects_def asciiLower_def setBit5_def isLineTerminator_def)
  have h3: "regex_match (patterns ! 0) ''Good morning'' = None"
    "regex_match (patterns ! 1) ''Good morning'' = None"
    "regex_match (patterns ! 2) ''Good morning'' = None"
    "regex_match (patterns ! 3) ''Good morning'' = None"
    by (simp_all add: patterns_def subjects_def asciiLower_def setBit5_def isLineTerminator_def)
  have len: "3 < length patterns" "length patterns = 4" by (simp_all add: patterns_def)
  have lt4: "\<And>P. (\<forall>i<4::nat. P i) = (P 0 \<and> P 1 \<and> P 2 \<and> P 3)"
    by (auto simp: less_Suc_eq numeral_eq_Suc)
  have lt3: "\<And>P. (\<forall>i<3::nat. P i) = (P 0 \<and> P 1 \<and> P 2)"
    by (auto simp: less_Suc_eq numeral_eq_Suc)
  have h2all: "\<forall>j<3. regex_match (patterns ! j) ''how did  the boom end ? '' = None"
    using h2(1-3) by (simp only: lt3 simp_thms)
  have h3all: "\<forall>i<length patterns. regex_match (patterns ! i) ''Good morning'' = None"
    using h3 by (simp only: len lt4 simp_thms)
  note a = extractTopic_first_match [of "''Why was SpindleTop famous?''"]
  note b = extractTopic_first_match [of "''how did  the boom end ? ''"]
  note c = extractTopic_first_match [of "''Good morning''"]
  from a h1 have r1: "\<exists>t. extractTopic ''Why was SpindleTop famous?'' = Some t
          \<and> map asciiLower t \<in> set subjects \<and> sublist t ''Why was SpindleTop famous?''"
    by blast
  from b len(1) h2all h2(4)
  have "extractTopic ''how did  the boom end ? ''
             = Some (if '' the boom end '' \<noteq> [] then trim '' the boom end ''
                     else trim ''how did  the boom end ?'')"
    by blast
  then have r2: "extractTopic ''how did  the boom end ? '' = Some (trim '' the boom end '')"
    by simp
  from c h3all have r3: "extractTopic ''Good morning'' = None"
    by blast
  from h1 r1 h2(1,4) r2 r3 show ?thesis by blast
qed


section \<open>Facts about the media agent\<close>

lemma image_loop_entries:
  "image_loop query allMedia items = allMedia @ concat (map (image_entry query) items)"
  by (induction items arbitrary: allMedia) (auto simp: image_entry_def split: option.splits)

lemma resource_loop_entries:
  "resource_loop mimeWords exts label ty query allMedia items =
     allMedia @ concat (map (resource_entry mimeWords exts label ty query) items)"
  by (induction items arbitrary: allMedia) (auto simp: resource_entry_def split: option.splits)











lemma snd_search_get: "snd (search_get e w url) = w\<lparr>http_calls := Suc (http_calls w)\<rparr>"
  by (simp add: search_get_def)

lemma results_of_search_get:
  "(case fst (search_get e w url) of None \<Rightarrow> [] | Some rs \<Rightarrow> rs)
     = results_of (search_reply e (http_calls w) url)"
  by (auto simp: search_get_def results_of_def split: http_reply.splits option.splits)

lemma image_loop_case:
  "(case r of None \<Rightarrow> allMedia | Some rs \<Rightarrow> image_loop query allMedia (take n rs))
     = allMedia @ concat (map (image_entry query)
                            (take n (case r of None \<Rightarrow> [] | Some rs \<Rightarrow> rs)))"
  by (cases r) (simp_all add: image_loop_entries)

lemma resource_loop_case:
  "(case r of None \<Rightarrow> allMedia
            | Some rs \<Rightarrow> resource_loop mimeWords exts label ty query allMedia (take n rs))
     = allMedia @ concat (map (resource_entry mimeWords exts label ty query)
                            (take n (case r of None \<Rightarrow> [] | Some rs \<Rightarrow> rs)))"
  by (cases r) (simp_all add: resource_loop_entries)

lemma searchLibraryOfCongress_eq:
  "searchLibraryOfCongress e w query maxResults =
     (take maxResults
        (concat (map (image_entry query)
           (take maxResults (results_of (search_reply e (http_calls w) (imageSearchUrl query)))))
         @ concat (map (resource_entry audioMimeWords audioExtensions
                          ''Library of Congress - Audio'' Audio query)
           (take (maxResults div 2)
              (results_of (search_reply e (Suc (http_calls w)) (audioSearchUrl query)))))
         @ concat (map (resource_entry videoMimeWords videoExtensions
                          ''Library of Congress - Video'' Video query)
           (take (maxResults div 2)
              (results_of (search_reply e (Suc (Suc (http_calls w))) (videoSearchUrl query)))))),
      w\<lparr>http_calls := Suc (Suc (Suc (http_calls w)))\<rparr>)"
  unfolding searchLibraryOfCongress_def Let_def case_prod_beta
    image_loop_case resource_loop_case results_of_search_get snd_search_get
  by simp






lemma kept_Nil: "kept [] bs = []"
  by (simp add: kept_def)








lemma searchLibraryOfCongress_fs:
  "fs_calls (snd (searchLibraryOfCongress e w query maxResults)) = fs_calls w"
  by (simp add: searchLibraryOfCongress_eq)















section \<open>Media agent: the claims\<close>










section \<open>Facts about the presentation builder\<close>

lemma asciiLower_idem: "asciiLower (asciiLower c) = asciiLower c"
  by (cases c) (simp add: asciiLower_def setBit5_def Let_def)

lemma asciiLower_percent: "asciiLower c = CHR ''%'' \<longleftrightarrow> c = CHR ''%''"
  by (cases c) (simp add: asciiLower_def setBit5_def Let_def)

lemma asciiLower_underscore: "asciiLower c = CHR ''_'' \<longleftrightarrow> c = CHR ''_''"
  by (cases c) (simp add: asciiLower_def setBit5_def Let_def)

lemma startsWith_ci_lowered:
  "startsWith_ci (map asciiLower p) (map asciiLower s) = startsWith_ci p s"
  by (induction p s rule: startsWith_ci.induct) (simp_all add: asciiLower_idem)

lemma suffixes_map: "suffixes (map f s) = map (map f) (suffixes s)"
  by (induction s) simp_all

lemma contains_ci_lowered:
  "contains_ci (map asciiLower p) (map asciiLower s) = contains_ci p s"
  by (simp add: contains_ci_def suffixes_map list_ex_iff startsWith_ci_lowered)

lemma sql_like_percent_all: "sql_like ''%'' s"
  by (induction s) simp_all

lemma sql_like_percent:
  "sql_like (CHR ''%'' # q) s \<longleftrightarrow> list_ex (sql_like q) (suffixes s)"
  by (induction s) auto

lemma sql_like_plain:
  "CHR ''%'' \<notin> set p \<Longrightarrow> CHR ''_'' \<notin> set p \<Longrightarrow>
   sql_like (p @ q) s \<longleftrightarrow> startsWith_ci p s \<and> sql_like q (drop (length p) s)"
proof (induction p arbitrary: s)
  case Nil
  then show ?case by simp
next
  case (Cons a p)
  then show ?case by (cases s) auto
qed

lemma sql_like_contains:
  assumes "CHR ''%'' \<notin> set p" "CHR ''_'' \<notin> set p"
  shows "sql_like (''%'' @ p @ ''%'') s \<longleftrightarrow> contains_ci p s"
proof -
  have "sql_like (''%'' @ p @ ''%'') s \<longleftrightarrow> list_ex (sql_like (p @ ''%'')) (suffixes s)"
    using sql_like_percent [of "p @ ''%''" s] by simp
  also have "\<dots> \<longleftrightarrow> list_ex (startsWith_ci p) (suffixes s)"
  proof -
    have "sql_like (p @ ''%'') = startsWith_ci p"
      using assms by (intro ext) (simp add: sql_like_plain sql_like_percent_all)
    then show ?thesis by simp
  qed
  finally show ?thesis by (simp add: contains_ci_def)
qed

lemma lower_like_contains:
  assumes "CHR ''%'' \<notin> set p" "CHR ''_'' \<notin> set p"
  shows "lower_like column (''%'' @ p @ ''%'') \<longleftrightarrow> column_contains_ci p column"
proof (cases column)
  case None
  then show ?thesis by (simp add: lower_like_def column_contains_ci_def)
next
  case (Some s)
  have a: "CHR ''%'' \<notin> set (map asciiLower p)" "CHR ''_'' \<notin> set (map asciiLower p)"
    using assms asciiLower_percent asciiLower_underscore by (metis imageE list.set_map)+
  have "map asciiLower (''%'' @ p @ ''%'') = ''%'' @ map asciiLower p @ ''%''"
    by (simp add: asciiLower_def)
  then have "lower_like column (''%'' @ p @ ''%'')
       \<longleftrightarrow> sql_like (''%'' @ map asciiLower p @ ''%'') (map asciiLower s)"
    using Some by (simp add: lower_like_def)
  also have "\<dots> \<longleftrightarrow> contains_ci (map asciiLower p) (map asciiLower s)"
    by (rule sql_like_contains [OF a])
  finally show ?thesis
    using Some by (simp add: column_contains_ci_def contains_ci_lowered)
qed


lemma order_desc_set: "set (order_desc fs) = set fs"
  by (simp add: order_desc_def)

lemma order_desc_length: "length (order_desc fs) = length fs"
  by (simp add: order_desc_def)






section \<open>Presentation builder and orchestrator: the claims\<close>

text \<open>
  Claim C4. For every message that contains no fixed subject and to which none of the
  three question templates applies, \<^const>\<open>extractTopic\<close> returns nothing, and
  \<^const>\<open>processUserQuery\<close> returns nothing and leaves the world as it was: no request, no
  file and no statement, so no media collection, no page and no row.
\<close>

theorem processUserQuery_no_topic:
  assumes "\<not> list_ex (\<lambda>s. contains_ci s message) subjects"
    and "\<not> template_applies [''tell me about ''] message"
    and "\<not> template_applies [''what is '', ''what was '', ''what were ''] message"
    and "\<not> template_applies [''how did ''] message"
  shows "extractTopic message = None
    \<and> processUserQuery e w message existingTopicId = (Inr None, w)"
proof -
  have "regex_match (Subject subjects) message = None"
    "regex_match (Question [''tell me about '']) message = None"
    "regex_match (Question [''what is '', ''what was '', ''what were '']) message = None"
    "regex_match (Question [''how did '']) message = None"
    using assms by (simp_all only: regex_match_Subject_None regex_match_Question_None simp_thms)
  then have "extractTopic message = None"
    by (simp add: extractTopic_def patterns_def)
  then show ?thesis
    by (simp add: processUserQuery_def truthy_def)
qed

theorem processUserQuery_no_topic_witness:
  "\<not> list_ex (\<lambda>s. contains_ci s ''Good morning, everyone'') subjects
   \<and> \<not> template_applies [''tell me about ''] ''Good morning, everyone''
   \<and> \<not> template_applies [''what is '', ''what was '', ''what were ''] ''Good morning, everyone''
   \<and> \<not> template_applies [''how did ''] ''Good morning, everyone''
   \<and> extractTopic ''Good morning, everyone'' = None
   \<and> processUserQuery env_archive world0 ''Good morning, everyone'' None = (Inr None, world0)"
proof -
  have h: "\<not> list_ex (\<lambda>s. contains_ci s ''Good morning, everyone'') subjects"
    "\<not> template_applies [''tell me about ''] ''Good morning, everyone''"
    "\<not> template_applies [''what is '', ''what was '', ''what were ''] ''Good morning, everyone''"
    "\<not> template_applies [''how did ''] ''Good morning, everyone''"
    by (simp_all add: subjects_def contains_ci_def template_applies_def asciiLower_def setBit5_def)
  from processUserQuery_no_topic [OF h, of env_archive world0 None] h
  show ?thesis by blast
qed







section \<open>Facts about the consolidation agent\<close>

lemma consolidateTopicCategory_Inr:
  "\<exists>r. fst (consolidateTopicCategory e w mainTopic) = Inr r"
  by (simp add: consolidateTopicCategory_def split: prod.splits sum.splits)

lemma sort_key_Nil: "sort_key f xs = [] \<longleftrightarrow> xs = []"
  by (metis length_0_conv length_sort)

lemma presentations_query_empty:
  "presentations_query w ps = [] \<longleftrightarrow>
     filter (\<lambda>p. list_ex (lower_like (Some (research_topic p))) ps) (joined_presentations w) = []"
  by (simp add: presentations_query_def sort_key_Nil)

lemma like_terms_contains:
  assumes "\<forall>t \<in> set terms. CHR ''%'' \<notin> set t \<and> CHR ''_'' \<notin> set t"
  shows "list_ex (lower_like (Some s)) (map (\<lambda>t. ''%'' @ t @ ''%'') terms)
     \<longleftrightarrow> list_ex (\<lambda>t. contains_ci t s) terms"
proof -
  have "\<And>t. t \<in> set terms \<Longrightarrow>
      lower_like (Some s) (''%'' @ t @ ''%'') = column_contains_ci t (Some s)"
    using assms by (intro lower_like_contains) auto
  then show ?thesis
    by (auto simp: list_ex_iff column_contains_ci_def)
qed

lemma presentations_query_matching:
  assumes "\<forall>t \<in> set (terms_of mainTopic h). CHR ''%'' \<notin> set t \<and> CHR ''_'' \<notin> set t"
  shows "presentations_query w (topicPatterns mainTopic h) = []
     \<longleftrightarrow> matching_presentations w (terms_of mainTopic h) = []"
proof -
  have "topicPatterns mainTopic h = map (\<lambda>t. ''%'' @ t @ ''%'') (terms_of mainTopic h)"
    by (simp add: topicPatterns_def terms_of_def)
  then show ?thesis
    unfolding presentations_query_empty matching_presentations_def
    using like_terms_contains [OF assms] by simp
qed

lemma table_terms_plain:
  assumes "mainTopic \<notin> set objectPrototypeKeys" "lookupHierarchy mainTopic = Some h"
  shows "map_of topicHierarchies mainTopic = Some h
    \<and> (\<forall>t \<in> set (terms_of mainTopic h). CHR ''%'' \<notin> set t \<and> CHR ''_'' \<notin> set t)"
proof -
  from assms have m: "map_of topicHierarchies mainTopic = Some h"
    by (auto simp: lookupHierarchy_def split: option.splits)
  then have "(mainTopic, h) \<in> set topicHierarchies"
    by (rule map_of_SomeD)
  then have "\<forall>t \<in> set (terms_of mainTopic h). CHR ''%'' \<notin> set t \<and> CHR ''_'' \<notin> set t"
    by (auto simp: topicHierarchies_def terms_of_def or_empty_def)
  with m show ?thesis by blast
qed

lemma findRelatedPresentations_data:
  "same_data w (snd (findRelatedPresentations e w mainTopic))
   \<and> clock_reads (snd (findRelatedPresentations e w mainTopic)) = clock_reads w"
  by (simp add: findRelatedPresentations_def same_data_def Let_def split: option.splits)

lemma consolidate_nothing:
  assumes "\<forall>pd. fst (findRelatedPresentations e w mainTopic) = Inr pd \<longrightarrow> pd_presentations pd = []"
  shows "fst (consolidateTopicCategory e w mainTopic) = Inr None
    \<and> same_data w (snd (consolidateTopicCategory e w mainTopic))"
proof (cases "fst (findRelatedPresentations e w mainTopic)")
  case (Inl err)
  then have "consolidateTopicCategory e w mainTopic
      = (Inr None, snd (findRelatedPresentations e w mainTopic))"
    by (simp add: consolidateTopicCategory_def consolidate_try_def case_prod_beta)
  then show ?thesis by (simp add: findRelatedPresentations_data)
next
  case (Inr pd)
  with assms have "pd_presentations pd = []" by blast
  with Inr have "consolidateTopicCategory e w mainTopic
      = (Inr None, snd (findRelatedPresentations e w mainTopic))"
    by (simp add: consolidateTopicCategory_def consolidate_try_def case_prod_beta)
  then show ?thesis by (simp add: findRelatedPresentations_data)
qed

lemma consolidate_keeps_file:
  assumes "lookupHierarchy mainTopic = Some h"
    and "\<not> db_fails e (db_calls w)"
    and "presentations_query w (topicPatterns mainTopic h) \<noteq> []"
    and "\<not> fs_fails e (fs_calls w)"
    and "db_fails e (Suc (db_calls w)) \<or> h_displayName h = None"
  shows "\<exists>filename html.
             filename = replace_runs isWhiteSpace (toLowerCase mainTopic) @ ''-consolidated-''
                          @ showNat (date_now e (Suc (clock_reads w))) @ ''.html''
           \<and> fst (consolidateTopicCategory e w mainTopic)
               = Inr (Some \<lparr>sf_filename = filename,
                             sf_filepath = path_join (presentationsDir e) filename,
                             sf_url = ''/presentations/'' @ filename\<rparr>)
           \<and> html \<noteq> []
           \<and> fst (generateConsolidatedPage e (w\<lparr>db_calls := Suc (db_calls w)\<rparr>)
                    \<lparr>pd_mainTopic = mainTopic, pd_displayName = h_displayName h,
                     pd_icon = h_icon h, pd_description = h_description h,
                     pd_presentations = presentations_query w (topicPatterns mainTopic h),
                     pd_subtopics = h_subtopics h\<rparr>) = Some html
           \<and> files (snd (consolidateTopicCategory e w mainTopic))
                (path_join (presentationsDir e) filename) = Some html
           \<and> consolidated_pages (snd (consolidateTopicCategory e w mainTopic))
               = consolidated_pages w"
proof -
  let ?pd = "\<lparr>pd_mainTopic = mainTopic, pd_displayName = h_displayName h,
                     pd_icon = h_icon h, pd_description = h_description h,
                     pd_presentations = presentations_query w (topicPatterns mainTopic h),
                     pd_subtopics = h_subtopics h\<rparr>"
  let ?w1 = "w\<lparr>db_calls := Suc (db_calls w)\<rparr>"
  let ?filename = "replace_runs isWhiteSpace (toLowerCase mainTopic) @ ''-consolidated-''
                          @ showNat (date_now e (Suc (clock_reads w))) @ ''.html''"
  from assms have find: "findRelatedPresentations e w mainTopic = (Inr ?pd, ?w1)"
    by (simp add: findRelatedPresentations_def Let_def)
  from assms have ne: "pd_presentations ?pd \<noteq> []" by simp
  then obtain tabbed where tabbed: "createTabbedInterface ?pd = Some tabbed"
    by (auto simp: createTabbedInterface_def Let_def)
  let ?html = "cpage_open @ interpolate (pd_displayName ?pd) @ cpage_style @ tabbed
                   @ cpage_stamp @ locale_string e (clock_reads w) @ cpage_count
                   @ showNat (length (pd_presentations ?pd)) @ cpage_close"
  have gen: "generateConsolidatedPage e ?w1 ?pd = (Some ?html, ?w1\<lparr>clock_reads := Suc (clock_reads w)\<rparr>)"
    using tabbed by (simp add: generateConsolidatedPage_def)
  have html: "?html \<noteq> []"
    by (simp add: cpage_open_def)
  have run: "fst (consolidateTopicCategory e w mainTopic)
               = Inr (Some \<lparr>sf_filename = ?filename,
                             sf_filepath = path_join (presentationsDir e) ?filename,
                             sf_url = ''/presentations/'' @ ?filename\<rparr>)
           \<and> files (snd (consolidateTopicCategory e w mainTopic))
                (path_join (presentationsDir e) ?filename) = Some ?html
           \<and> consolidated_pages (snd (consolidateTopicCategory e w mainTopic))
               = consolidated_pages w"
    using assms ne html
    by (auto simp: consolidateTopicCategory_def consolidate_try_def find gen
        saveConsolidatedPage_def storeConsolidatedPage_def writeFileSync_def Let_def
        split: option.splits)
  show ?thesis
    apply (rule exI [of _ ?filename])
    apply (rule exI [of _ ?html])
    using run html gen by simp
qed

lemma proto_lookup:
  "lookupHierarchy ''__proto__''
     = Some \<lparr>h_displayName = None, h_icon = None, h_description = None,
              h_subtopics = None, h_relatedTopics = None\<rparr>"
  by (simp add: lookupHierarchy_def topicHierarchies_def objectPrototypeKeys_def)

lemma proto_query:
  "presentations_query (world_with ''A prototype ship'')
     (topicPatterns ''__proto__''
        \<lparr>h_displayName = None, h_icon = None, h_description = None,
         h_subtopics = None, h_relatedTopics = None\<rparr>) \<noteq> []"
  by (simp add: presentations_query_empty topicPatterns_def or_empty_def
      joined_presentations_def world_with_def world0_def lower_like_def asciiLower_def
      setBit5_def presentation_row.extend_def)

lemma proto_filename:
  "replace_runs isWhiteSpace (toLowerCase ''__proto__'') @ ''-consolidated-''
     @ showNat (date_now env_offline (Suc (clock_reads (world_with ''A prototype ship''))))
     @ ''.html'' = ''__proto__-consolidated-1700000000001.html''"
  by (simp add: toLowerCase_def toLowerCase_char_def setBit5_def isWhiteSpace_def
      env_offline_def world_with_def world0_def showNat.simps digit_def)

lemma proto_path:
  "path_join (presentationsDir env_offline) ''__proto__-consolidated-1700000000001.html''
     = ''/srv/setx/public/presentations/__proto__-consolidated-1700000000001.html''"
  by (simp add: presentationsDir_def env_offline_def path_join_def path_normalize_def Let_def)


section \<open>Page consolidation agent: the claims\<close>

text \<open>
  Claim C9. Every category string whose substring match finds no stored presentation, a name
  absent from the hierarchy table included, should give nothing and leave disk and database
  alone. The code does otherwise on one kind of input. The lookup
  \<^verbatim>\<open>getTopicHierarchies()[mainTopic]\<close> also finds the property names that the table
  inherits from \<^verbatim>\<open>Object.prototype\<close>, which pass the guard \<^verbatim>\<open>!hierarchy\<close>, and the match
  is a \<^verbatim>\<open>LIKE\<close> pattern in which an underscore stands for any character. The category
  \<^verbatim>\<open>__proto__\<close> is not in the table and is a substring of no stored topic; the code
  looks for \<^verbatim>\<open>%__proto__%\<close>, finds the presentation of the topic
  \<^verbatim>\<open>A prototype ship\<close>, writes a consolidated file and returns its descriptor.
\<close>

theorem consolidateTopicCategory_inherited_key:
  "map_of topicHierarchies ''__proto__'' = None
   \<and> matching_presentations (world_with ''A prototype ship'') [''__proto__''] = []
   \<and> files (world_with ''A prototype ship'')
        ''/srv/setx/public/presentations/__proto__-consolidated-1700000000001.html'' = None
   \<and> fst (consolidateTopicCategory env_offline (world_with ''A prototype ship'') ''__proto__'')
       = Inr (Some \<lparr>sf_filename = ''__proto__-consolidated-1700000000001.html'',
                     sf_filepath = ''/srv/setx/public/presentations/__proto__-consolidated-1700000000001.html'',
                     sf_url = ''/presentations/__proto__-consolidated-1700000000001.html''\<rparr>)
   \<and> files (snd (consolidateTopicCategory env_offline (world_with ''A prototype ship'')
                    ''__proto__''))
        ''/srv/setx/public/presentations/__proto__-consolidated-1700000000001.html'' \<noteq> None"
proof -
  have absent: "map_of topicHierarchies ''__proto__'' = None"
    by (simp add: topicHierarchies_def)
  have nomatch: "matching_presentations (world_with ''A prototype ship'') [''__proto__''] = []"
    by (simp add: matching_presentations_def joined_presentations_def world_with_def
        world0_def contains_ci_def asciiLower_def setBit5_def presentation_row.extend_def)
  have before: "files (world_with ''A prototype ship'')
        ''/srv/setx/public/presentations/__proto__-consolidated-1700000000001.html'' = None"
    by (simp add: world_with_def world0_def)
  have ok: "\<not> db_fails env_offline (db_calls (world_with ''A prototype ship''))"
    "\<not> fs_fails env_offline (fs_calls (world_with ''A prototype ship''))"
    by (simp_all add: env_offline_def)
  from consolidate_keeps_file [OF proto_lookup ok(1) proto_query ok(2)]
  obtain filename html where r:
    "filename = replace_runs isWhiteSpace (toLowerCase ''__proto__'') @ ''-consolidated-''
       @ showNat (date_now env_offline (Suc (clock_reads (world_with ''A prototype ship''))))
       @ ''.html''"
    "fst (consolidateTopicCategory env_offline (world_with ''A prototype ship'') ''__proto__'')
       = Inr (Some \<lparr>sf_filename = filename,
                     sf_filepath = path_join (presentationsDir env_offline) filename,
                     sf_url = ''/presentations/'' @ filename\<rparr>)"
    "files (snd (consolidateTopicCategory env_offline (world_with ''A prototype ship'')
                    ''__proto__''))
        (path_join (presentationsDir env_offline) filename) = Some html"
    by auto
  have fn: "filename = ''__proto__-consolidated-1700000000001.html''"
    unfolding r(1) by (rule proto_filename)
  have made: "fst (consolidateTopicCategory env_offline (world_with ''A prototype ship'') ''__proto__'')
       = Inr (Some \<lparr>sf_filename = ''__proto__-consolidated-1700000000001.html'',
                     sf_filepath = ''/srv/setx/public/presentations/__proto__-consolidated-1700000000001.html'',
                     sf_url = ''/presentations/__proto__-consolidated-1700000000001.html''\<rparr>)"
    using r(2) unfolding fn proto_path by simp
  have kept: "files (snd (consolidateTopicCategory env_offline (world_with ''A prototype ship'')
                    ''__proto__''))
        ''/srv/setx/public/presentations/__proto__-consolidated-1700000000001.html'' \<noteq> None"
    using r(3) unfolding fn proto_path by simp
  from absent nomatch before made kept show ?thesis by blast
qed

text \<open>
  The inherited names are the only such inputs. For every category string that is not a
  property name inherited from \<^verbatim>\<open>Object.prototype\<close>: when the string is absent from the
  hierarchy table, or no stored presentation has a researched topic that contains the
  category name, one of its related topics or one of its subtopics (without regard to case),
  \<^const>\<open>consolidateTopicCategory\<close> returns nothing, attempts no write and changes no table:
  no consolidated file and no \<^verbatim>\<open>consolidated_pages\<close> row.
\<close>

theorem consolidateTopicCategory_nothing_found:
  assumes "mainTopic \<notin> set objectPrototypeKeys"
    and "\<forall>h. map_of topicHierarchies mainTopic = Some h
           \<longrightarrow> matching_presentations w (terms_of mainTopic h) = []"
  shows "fst (consolidateTopicCategory e w mainTopic) = Inr None
    \<and> same_data w (snd (consolidateTopicCategory e w mainTopic))"
proof (rule consolidate_nothing, intro allI impI)
  fix pd
  assume r: "fst (findRelatedPresentations e w mainTopic) = Inr pd"
  show "pd_presentations pd = []"
  proof (cases "lookupHierarchy mainTopic")
    case None
    with r show ?thesis
      by (auto simp: findRelatedPresentations_def)
  next
    case (Some h)
    from table_terms_plain [OF assms(1) Some]
    have m: "map_of topicHierarchies mainTopic = Some h"
      and plain: "\<forall>t \<in> set (terms_of mainTopic h). CHR ''%'' \<notin> set t \<and> CHR ''_'' \<notin> set t"
      by blast+
    from m assms(2) have "matching_presentations w (terms_of mainTopic h) = []" by blast
    then have "presentations_query w (topicPatterns mainTopic h) = []"
      using presentations_query_matching [OF plain] by blast
    with r Some show ?thesis
      by (auto simp: findRelatedPresentations_def Let_def split: if_splits)
  qed
qed

theorem consolidateTopicCategory_nothing_found_witness:
  "''Shipbuilding'' \<notin> set objectPrototypeKeys
   \<and> matching_presentations (world_with ''Spindletop'')
        [''Shipbuilding'', ''Orange'', ''Port Arthur'', ''WWII shipyards'',
         ''Construction techniques'', ''Major shipbuilding companies'', ''Types of vessels''] = []
   \<and> fst (consolidateTopicCategory env_offline (world_with ''Spindletop'') ''Shipbuilding'')
       = Inr None
   \<and> same_data (world_with ''Spindletop'')
        (snd (consolidateTopicCategory env_offline (world_with ''Spindletop'') ''Shipbuilding''))
   \<and> map_of topicHierarchies ''Spindletop'' = None
   \<and> fst (consolidateTopicCategory env_offline (world_with ''Spindletop'') ''Spindletop'')
       = Inr None"
proof -
  have k: "''Shipbuilding'' \<notin> set objectPrototypeKeys" "''Spindletop'' \<notin> set objectPrototypeKeys"
    by (simp_all add: objectPrototypeKeys_def)
  have none: "matching_presentations (world_with ''Spindletop'')
        [''Shipbuilding'', ''Orange'', ''Port Arthur'', ''WWII shipyards'',
         ''Construction techniques'', ''Major shipbuilding companies'', ''Types of vessels''] = []"
    by (simp add: matching_presentations_def joined_presentations_def world_with_def world0_def
        contains_ci_def asciiLower_def setBit5_def presentation_row.extend_def)
  have h: "\<forall>h. map_of topicHierarchies ''Shipbuilding'' = Some h
           \<longrightarrow> matching_presentations (world_with ''Spindletop'') (terms_of ''Shipbuilding'' h) = []"
    using none by (simp add: topicHierarchies_def terms_of_def or_empty_def)
  have absent: "map_of topicHierarchies ''Spindletop'' = None"
    by (simp add: topicHierarchies_def)
  then have h': "\<forall>h. map_of topicHierarchies ''Spindletop'' = Some h
           \<longrightarrow> matching_presentations (world_with ''Spindletop'') (terms_of ''Spindletop'' h) = []"
    by simp
  from consolidateTopicCategory_nothing_found [OF k(1) h, of env_offline]
    consolidateTopicCategory_nothing_found [OF k(2) h', of env_offline]
    k(1) none absent
  show ?thesis by blast
qed

text \<open>
  Claim C10. For every category string and every outcome of the database and of the disk,
  \<^const>\<open>consolidateTopicCategory\<close> ends with a result, never with an error: a saved-file
  descriptor or nothing. In particular, when presentations are found, the write of the
  consolidated file succeeds and the insert of the \<^verbatim>\<open>consolidated_pages\<close> row fails, the
  result is still the descriptor of the file, the file stays on disk with the page in it,
  and \<^verbatim>\<open>consolidated_pages\<close> is as before.
\<close>

theorem consolidateTopicCategory_never_rejects:
  "(\<exists>r. fst (consolidateTopicCategory e w mainTopic) = Inr r)
   \<and> (\<forall>h. lookupHierarchy mainTopic = Some h
          \<and> \<not> db_fails e (db_calls w)
          \<and> presentations_query w (topicPatterns mainTopic h) \<noteq> []
          \<and> \<not> fs_fails e (fs_calls w)
          \<and> (db_fails e (Suc (db_calls w)) \<or> h_displayName h = None)
        \<longrightarrow>
          (\<exists>filename html.
             filename = replace_runs isWhiteSpace (toLowerCase mainTopic) @ ''-consolidated-''
                          @ showNat (date_now e (Suc (clock_reads w))) @ ''.html''
           \<and> fst (consolidateTopicCategory e w mainTopic)
               = Inr (Some \<lparr>sf_filename = filename,
                             sf_filepath = path_join (presentationsDir e) filename,
                             sf_url = ''/presentations/'' @ filename\<rparr>)
           \<and> html \<noteq> []
           \<and> fst (generateConsolidatedPage e (w\<lparr>db_calls := Suc (db_calls w)\<rparr>)
                    \<lparr>pd_mainTopic = mainTopic, pd_displayName = h_displayName h,
                     pd_icon = h_icon h, pd_description = h_description h,
                     pd_presentations = presentations_query w (topicPatterns mainTopic h),
                     pd_subtopics = h_subtopics h\<rparr>) = Some html
           \<and> files (snd (consolidateTopicCategory e w mainTopic))
                (path_join (presentationsDir e) filename) = Some html
           \<and> consolidated_pages (snd (consolidateTopicCategory e w mainTopic))
               = consolidated_pages w))"
proof (intro conjI allI impI)
  show "\<exists>r. fst (consolidateTopicCategory e w mainTopic) = Inr r"
    by (rule consolidateTopicCategory_Inr)
next
  fix h
  assume a: "lookupHierarchy mainTopic = Some h
          \<and> \<not> db_fails e (db_calls w)
          \<and> presentations_query w (topicPatterns mainTopic h) \<noteq> []
          \<and> \<not> fs_fails e (fs_calls w)
          \<and> (db_fails e (Suc (db_calls w)) \<or> h_displayName h = None)"
  from a have a1: "lookupHierarchy mainTopic = Some h" by (rule conjunct1)
  from a have a2: "\<not> db_fails e (db_calls w)" by simp
  from a have a3: "presentations_query w (topicPatterns mainTopic h) \<noteq> []" by simp
  from a have a4: "\<not> fs_fails e (fs_calls w)" by simp
  from a have a5: "db_fails e (Suc (db_calls w)) \<or> h_displayName h = None" by simp
  show "\<exists>filename html.
             filename = replace_runs isWhiteSpace (toLowerCase mainTopic) @ ''-consolidated-''
                          @ showNat (date_now e (Suc (clock_reads w))) @ ''.html''
           \<and> fst (consolidateTopicCategory e w mainTopic)
               = Inr (Some \<lparr>sf_filename = filename,
                             sf_filepath = path_join (presentationsDir e) filename,
                             sf_url = ''/presentations/'' @ filename\<rparr>)
           \<and> html \<noteq> []
           \<and> fst (generateConsolidatedPage e (w\<lparr>db_calls := Suc (db_calls w)\<rparr>)
                    \<lparr>pd_mainTopic = mainTopic, pd_displayName = h_displayName h,
                     pd_icon = h_icon h, pd_description = h_description h,
                     pd_presentations = presentations_query w (topicPatterns mainTopic h),
                     pd_subtopics = h_subtopics h\<rparr>) = Some html
           \<and> files (snd (consolidateTopicCategory e w mainTopic))
                (path_join (presentationsDir e) filename) = Some html
           \<and> consolidated_pages (snd (consolidateTopicCategory e w mainTopic))
               = consolidated_pages w"
    by (rule consolidate_keeps_file [OF a1 a2 a3 a4 a5])
qed

theorem consolidateTopicCategory_never_rejects_witness:
  "\<not> db_fails env_insert_fails (db_calls (world_with ''Spindletop''))
   \<and> db_fails env_insert_fails (Suc (db_calls (world_with ''Spindletop'')))
   \<and> \<not> fs_fails env_insert_fails (fs_calls (world_with ''Spindletop''))
   \<and> fst (consolidateTopicCategory env_insert_fails (world_with ''Spindletop'') ''Oil & Energy'')
       = Inr (Some \<lparr>sf_filename = ''oil-&-energy-consolidated-1700000000001.html'',
                     sf_filepath = ''/srv/setx/public/presentations/oil-&-energy-consolidated-1700000000001.html'',
                     sf_url = ''/presentations/oil-&-energy-consolidated-1700000000001.html''\<rparr>)
   \<and> files (snd (consolidateTopicCategory env_insert_fails (world_with ''Spindletop'')
                    ''Oil & Energy''))
        ''/srv/setx/public/presentations/oil-&-energy-consolidated-1700000000001.html'' \<noteq> None
   \<and> consolidated_pages
        (snd (consolidateTopicCategory env_insert_fails (world_with ''Spindletop'')
                ''Oil & Energy'')) = []"
proof -
  let ?h = "\<lparr>h_displayName = Some ''Oil & Energy in Southeast Texas'',
       h_icon = Some [CHR 0xE2, CHR 0x9A, CHR 0xA1],
       h_description = Some ''The petroleum industry that transformed Southeast Texas from rural to industrial'',
       h_subtopics = Some [''Spindletop'', ''Oil drilling methods'', ''Refineries'',
                           ''Major oil companies''],
       h_relatedTopics = Some [''Port Arthur'', ''Beaumont'']\<rparr>"
  let ?w = "world_with ''Spindletop''"
  have h: "lookupHierarchy ''Oil & Energy'' = Some ?h"
    by (simp add: lookupHierarchy_def topicHierarchies_def)
  have io: "\<not> db_fails env_insert_fails (db_calls ?w)"
    "db_fails env_insert_fails (Suc (db_calls ?w))"
    "\<not> fs_fails env_insert_fails (fs_calls ?w)"
    by (simp_all add: env_insert_fails_def env_offline_def world_with_def world0_def)
  have q: "presentations_query ?w (topicPatterns ''Oil & Energy'' ?h) \<noteq> []"
    by (simp add: presentations_query_empty topicPatterns_def or_empty_def
        joined_presentations_def world_with_def world0_def lower_like_def asciiLower_def
        setBit5_def presentation_row.extend_def)
  have hyp: "lookupHierarchy ''Oil & Energy'' = Some ?h
          \<and> \<not> db_fails env_insert_fails (db_calls ?w)
          \<and> presentations_query ?w (topicPatterns ''Oil & Energy'' ?h) \<noteq> []
          \<and> \<not> fs_fails env_insert_fails (fs_calls ?w)
          \<and> (db_fails env_insert_fails (Suc (db_calls ?w)) \<or> h_displayName ?h = None)"
    using h io q by blast
  from consolidateTopicCategory_never_rejects [of env_insert_fails ?w "''Oil & Energy''"] hyp
  obtain filename html where r:
    "filename = replace_runs isWhiteSpace (toLowerCase ''Oil & Energy'') @ ''-consolidated-''
       @ showNat (date_now env_insert_fails (Suc (clock_reads ?w))) @ ''.html''"
    "fst (consolidateTopicCategory env_insert_fails ?w ''Oil & Energy'')
       = Inr (Some \<lparr>sf_filename = filename,
                     sf_filepath = path_join (presentationsDir env_insert_fails) filename,
                     sf_url = ''/presentations/'' @ filename\<rparr>)"
    "files (snd (consolidateTopicCategory env_insert_fails ?w ''Oil & Energy''))
        (path_join (presentationsDir env_insert_fails) filename) = Some html"
    "consolidated_pages (snd (consolidateTopicCategory env_insert_fails ?w ''Oil & Energy''))
       = consolidated_pages ?w"
    by blast
  have fn: "filename = ''oil-&-energy-consolidated-1700000000001.html''"
    unfolding r(1)
    by (simp add: toLowerCase_def toLowerCase_char_def setBit5_def isWhiteSpace_def
        env_insert_fails_def env_offline_def world_with_def world0_def showNat.simps digit_def)
  have path: "path_join (presentationsDir env_insert_fails)
                ''oil-&-energy-consolidated-1700000000001.html''
     = ''/srv/setx/public/presentations/oil-&-energy-consolidated-1700000000001.html''"
    by (simp add: presentationsDir_def env_insert_fails_def env_offline_def path_join_def
        path_normalize_def Let_def)
  have made: "fst (consolidateTopicCategory env_insert_fails ?w ''Oil & Energy'')
       = Inr (Some \<lparr>sf_filename = ''oil-&-energy-consolidated-1700000000001.html'',
                     sf_filepath = ''/srv/setx/public/presentations/oil-&-energy-consolidated-1700000000001.html'',
                     sf_url = ''/presentations/oil-&-energy-consolidated-1700000000001.html''\<rparr>)"
    using r(2) unfolding fn path by simp
  have kept: "files (snd (consolidateTopicCategory env_insert_fails ?w ''Oil & Energy''))
        ''/srv/setx/public/presentations/oil-&-energy-consolidated-1700000000001.html'' \<noteq> None"
    using r(3) unfolding fn path by simp
  have rows: "consolidated_pages
        (snd (consolidateTopicCategory env_insert_fails ?w ''Oil & Energy'')) = []"
    using r(4) by (simp add: world_with_def world0_def)
  from io made kept rows show ?thesis by blast
qed


end
